theory Spec2Isabelle
  imports Main "HOL-Library.Sublist"
begin

section \<open>JavaScript strings\<close>

text \<open>
  A JavaScript string is a sequence of UTF-16 code units.  The model uses \<^typ>\<open>string\<close>,
  whose characters are the code units U+0000 to U+00FF (Latin-1), so that \<open>length\<close> is
  the \<open>.length\<close> of the source for every string in that range.
\<close>

text \<open>The class \<open>\s\<close> of a regular expression, which is also what \<open>trim()\<close> strips:
  TAB, LF, VT, FF, CR, SPACE and NBSP are its members below U+0100.\<close>

definition isWhiteSpace :: "char \<Rightarrow> bool" where
  "isWhiteSpace c =
     (let n = (of_char c :: nat) in n = 32 \<or> (9 \<le> n \<and> n \<le> 13) \<or> n = 160)"

text \<open>The class \<open>\d\<close>: the ASCII digits.\<close>

definition isDigit :: "char \<Rightarrow> bool" where
  "isDigit c = (let n = (of_char c :: nat) in 48 \<le> n \<and> n \<le> 57)"

text \<open>\<open>toLowerCase()\<close> on one code unit: A-Z and the Latin-1 capitals U+00C0..U+00DE
  (without the multiplication sign U+00D7) move up by 32, which sets bit 5.\<close>

fun toLowerChar :: "char \<Rightarrow> char" where
  "toLowerChar (Char b0 b1 b2 b3 b4 b5 b6 b7) =
     (let n = (of_char (Char b0 b1 b2 b3 b4 b5 b6 b7) :: nat) in
      if (65 \<le> n \<and> n \<le> 90) \<or> (192 \<le> n \<and> n \<le> 222 \<and> n \<noteq> 215)
      then Char b0 b1 b2 b3 b4 True b6 b7
      else Char b0 b1 b2 b3 b4 b5 b6 b7)"

definition str_toLowerCase :: "string \<Rightarrow> string" where
  "str_toLowerCase s = map toLowerChar s"

definition str_trim :: "string \<Rightarrow> string" where
  "str_trim s = rev (dropWhile isWhiteSpace (rev (dropWhile isWhiteSpace s)))"

text \<open>\<open>s.includes(t)\<close>: \<open>t\<close> occurs in \<open>s\<close> as a contiguous run.\<close>

definition str_includes :: "string \<Rightarrow> string \<Rightarrow> bool" where
  "str_includes s t = sublist t s"

fun str_join :: "string \<Rightarrow> string list \<Rightarrow> string" where
  "str_join sep [] = []"
| "str_join sep [x] = x"
| "str_join sep (x # y # ys) = x @ sep @ str_join sep (y # ys)"

text \<open>The decimal digits of a natural number, as a template literal prints
  \<open>Date.now()\<close> and a status code.\<close>

definition digitChar :: "nat \<Rightarrow> char" where
  "digitChar d = ''0123456789'' ! (d mod 10)"

function showNat :: "nat \<Rightarrow> string" where
  "showNat n = (if n < 10 then [digitChar n] else showNat (n div 10) @ [digitChar (n mod 10)])"
  by pat_completeness auto
termination
  by (relation "measure (\<lambda>n. n)") auto

declare showNat.simps [simp del]

text \<open>
  \<open>Number::toString\<close> on a number that is an integer.  Below \<open>2^53\<close> every integer is a
  number and prints as its digits.  From \<open>2^53\<close> on a number \<open>x\<close> is \<open>m * 2^e\<close> with
  \<open>2^52 \<le> m < 2^53\<close>, and its notation has the fewest significant digits that still read
  back as \<open>x\<close>: a decimal \<open>v\<close> reads back as \<open>x\<close> when it lies between the midpoints to the
  two neighbours of \<open>x\<close>, a midpoint included when \<open>m\<close> is even.  The gap below \<open>x\<close> is half
  the gap above when \<open>m = 2^52\<close>.  All comparisons are made on the fourfold values.  An
  integer from \<open>2^53\<close> on that is not of this form is the value of no number.
\<close>

function binaryExponent :: "nat \<Rightarrow> nat" where
  "binaryExponent x = (if x < 2 ^ 53 then 0 else Suc (binaryExponent (x div 2)))"
  by pat_completeness auto
termination
  by (relation "measure (\<lambda>x. x)") auto

declare binaryExponent.simps [simp del]

definition readsBackAs :: "nat \<Rightarrow> nat \<Rightarrow> bool" where
  "readsBackAs x v =
     (let q = 2 ^ binaryExponent x;
          m = x div q;
          below = (if m = 2 ^ 52 then q else 2 * q);
          above = 2 * q
      in if even m then 4 * x \<le> 4 * v + below \<and> 4 * v \<le> 4 * x + above
         else 4 * x < 4 * v + below \<and> 4 * v < 4 * x + above)"

text \<open>The multiples of \<open>p\<close> next to \<open>x\<close> that read back as \<open>x\<close>, the closer one first and
  the even one first on a tie.\<close>

definition roundings :: "nat \<Rightarrow> nat \<Rightarrow> nat list" where
  "roundings x p =
     (let lo = (x div p) * p;
          hi = lo + p
      in filter (readsBackAs x)
           (if x - lo < hi - x then [lo, hi]
            else if hi - x < x - lo then [hi, lo]
            else if even (x div p) then [lo, hi] else [hi, lo]))"

text \<open>The shortest decimal, tried from one significant digit (\<open>p = 10^j\<close> for a number of
  \<open>j + 1\<close> digits) down to all the digits of \<open>x\<close>.\<close>

function shortestFrom :: "nat \<Rightarrow> nat \<Rightarrow> nat" where
  "shortestFrom x j =
     (if j = 0 then x
      else (case roundings x (10 ^ j) of
              v # vs \<Rightarrow> v
            | [] \<Rightarrow> shortestFrom x (j - 1)))"
  by pat_completeness auto
termination
  by (relation "measure (\<lambda>(x, j). j)") auto

declare shortestFrom.simps [simp del]

text \<open>The notation: plain decimal up to 21 digits, and beyond that the significant digits
  with a point after the first one and the exponent.\<close>

definition natToString :: "nat \<Rightarrow> string" where
  "natToString x =
     (if x < 2 ^ 53 then showNat x
      else
        (let ds = showNat (shortestFrom x (length (showNat x) - 1)) in
         if length ds \<le> 21 then ds
         else
           (case rev (dropWhile (\<lambda>c. c = CHR ''0'') (rev ds)) of
              [] \<Rightarrow> ds
            | c # cs \<Rightarrow>
                c # (if cs = [] then [] else CHR ''.'' # cs)
                  @ ''e+'' @ showNat (length ds - 1))))"

definition numberToString :: "int \<Rightarrow> string" where
  "numberToString i =
     (if i < 0 then CHR ''-'' # natToString (nat (- i)) else natToString (nat i))"

section \<open>JavaScript values\<close>

text \<open>
  The handlers receive parsed JSON typed \<open>any\<close>, so a field can hold a value of any
  shape.  \<open>JNum\<close> carries a number that is an integer;
  \<open>JObj\<close> lists the own properties of an object, each name once; \<open>JUndefined\<close> is what
  reading an absent property gives.
\<close>

datatype jsval =
    JUndefined
  | JNull
  | JBool bool
  | JNum int
  | JStr string
  | JArr "jsval list"
  | JObj "(string \<times> jsval) list"

datatype js_error = TypeError | RangeError | SyntaxError | Error string

text \<open>Truthiness, as \<open>!v\<close>, \<open>a || b\<close>, \<open>a && b\<close> and \<open>c ? x : y\<close> test it.\<close>

fun truthy :: "jsval \<Rightarrow> bool" where
  "truthy JUndefined = False"
| "truthy JNull = False"
| "truthy (JBool b) = b"
| "truthy (JNum n) = (n \<noteq> 0)"
| "truthy (JStr s) = (s \<noteq> [])"
| "truthy (JArr xs) = True"
| "truthy (JObj kvs) = True"

text \<open>\<open>a || b\<close> on values.\<close>

definition js_or :: "jsval \<Rightarrow> jsval \<Rightarrow> jsval" where
  "js_or a b = (if truthy a then a else b)"

text \<open>
  \<open>v.k\<close> for the property names this program reads.  Reading a property of \<open>undefined\<close>
  or \<open>null\<close> throws a TypeError; an object gives its own property or \<open>undefined\<close>;
  strings and arrays have \<open>length\<close> and none of the other names; numbers and booleans
  have none.
\<close>

fun js_get :: "jsval \<Rightarrow> string \<Rightarrow> js_error + jsval" where
  "js_get JUndefined k = Inl TypeError"
| "js_get JNull k = Inl TypeError"
| "js_get (JObj kvs) k = Inr (case map_of kvs k of Some v \<Rightarrow> v | None \<Rightarrow> JUndefined)"
| "js_get (JStr s) k = Inr (if k = ''length'' then JNum (int (length s)) else JUndefined)"
| "js_get (JArr xs) k = Inr (if k = ''length'' then JNum (int (length xs)) else JUndefined)"
| "js_get (JBool b) k = Inr JUndefined"
| "js_get (JNum n) k = Inr JUndefined"

text \<open>The same read where the receiver is known not to be \<open>undefined\<close> or \<open>null\<close>.\<close>

definition js_field :: "jsval \<Rightarrow> string \<Rightarrow> jsval" where
  "js_field v k = (case js_get v k of Inr x \<Rightarrow> x | Inl e \<Rightarrow> JUndefined)"

text \<open>\<open>String(v)\<close>, the conversion a regular expression's \<open>test\<close> and \<open>Array.join\<close>
  apply to a value that is not a string.\<close>

fun ToString :: "jsval \<Rightarrow> string" where
  "ToString JUndefined = ''undefined''"
| "ToString JNull = ''null''"
| "ToString (JBool b) = (if b then ''true'' else ''false'')"
| "ToString (JNum n) = numberToString n"
| "ToString (JStr s) = s"
| "ToString (JArr xs) =
     str_join '','' (map (\<lambda>x. case x of JUndefined \<Rightarrow> [] | JNull \<Rightarrow> [] | _ \<Rightarrow> ToString x) xs)"
| "ToString (JObj kvs) = ''[object Object]''"

text \<open>\<open>xs.join(sep)\<close>: \<open>undefined\<close> and \<open>null\<close> elements print as the empty string.\<close>

definition elementToString :: "jsval \<Rightarrow> string" where
  "elementToString x = (case x of JUndefined \<Rightarrow> [] | JNull \<Rightarrow> [] | _ \<Rightarrow> ToString x)"

definition arr_join :: "jsval list \<Rightarrow> string \<Rightarrow> string" where
  "arr_join xs sep = str_join sep (map elementToString xs)"

text \<open>Calling a method of \<open>String.prototype\<close> (\<open>toLowerCase\<close>, \<open>trim\<close>, \<open>split\<close>,
  \<open>replace\<close>) on a value: a string has it, \<open>undefined\<close> and \<open>null\<close> have no properties, and
  on every other value the property is \<open>undefined\<close>, which is not a function.  Each case
  but the first throws a TypeError.\<close>

definition asString :: "jsval \<Rightarrow> js_error + string" where
  "asString v = (case v of JStr s \<Rightarrow> Inr s | _ \<Rightarrow> Inl TypeError)"

section \<open>Classifier\<close>

text \<open>Lines 41 to 78 of \<open>determineCategory\<close>: the ordered keyword groups over the
  lower-cased search text.\<close>

definition categoryOfSearchText :: "string \<Rightarrow> string" where
  "categoryOfSearchText searchText =
    (if str_includes searchText ''dev'' \<or> str_includes searchText ''engineer''
        \<or> str_includes searchText ''programmer'' \<or> str_includes searchText ''frontend''
        \<or> str_includes searchText ''backend'' \<or> str_includes searchText ''fullstack''
        \<or> str_includes searchText ''full stack''
     then ''Software Development''
     else if str_includes searchText ''data'' \<or> str_includes searchText ''analyst''
        \<or> str_includes searchText ''scientist'' \<or> str_includes searchText ''ml''
        \<or> str_includes searchText ''machine learning''
     then ''Data Science''
     else if str_includes searchText ''design'' \<or> str_includes searchText ''ux''
        \<or> str_includes searchText ''ui'' \<or> str_includes searchText ''graphic''
     then ''Design''
     else if str_includes searchText ''market'' \<or> str_includes searchText ''seo''
        \<or> str_includes searchText ''growth''
     then ''Marketing''
     else if str_includes searchText ''product'' \<or> str_includes searchText ''pm''
     then ''Product Management''
     else if str_includes searchText ''sales'' \<or> str_includes searchText ''business development''
     then ''Sales''
     else if str_includes searchText ''support'' \<or> str_includes searchText ''customer''
        \<or> str_includes searchText ''success''
     then ''Customer Support''
     else if str_includes searchText ''hr'' \<or> str_includes searchText ''human''
        \<or> str_includes searchText ''recruiter'' \<or> str_includes searchText ''talent''
     then ''Human Resources''
     else if str_includes searchText ''finance'' \<or> str_includes searchText ''accounting''
        \<or> str_includes searchText ''accountant''
     then ''Finance''
     else if str_includes searchText ''devops'' \<or> str_includes searchText ''sre''
        \<or> str_includes searchText ''infrastructure''
     then ''DevOps''
     else if str_includes searchText ''qa'' \<or> str_includes searchText ''test''
        \<or> str_includes searchText ''quality''
     then ''Quality Assurance''
     else if str_includes searchText ''security'' \<or> str_includes searchText ''cyber''
     then ''Security''
     else ''Software Development'')"

text \<open>
  \<open>determineCategory(tagsOrTitle)\<close>.  An array is joined with spaces; anything else has
  \<open>toLowerCase()\<close> called on it, which only a string has.
\<close>

definition determineCategory :: "jsval \<Rightarrow> js_error + string" where
  "determineCategory tagsOrTitle =
     (case tagsOrTitle of
        JArr xs \<Rightarrow> Inr (categoryOfSearchText (str_toLowerCase (arr_join xs '' '')))
      | JStr s \<Rightarrow> Inr (categoryOfSearchText (str_toLowerCase s))
      | _ \<Rightarrow> Inl TypeError)"

definition determineExperienceLevel :: "jsval \<Rightarrow> js_error + string" where
  "determineExperienceLevel title =
     (case title of
        JStr s \<Rightarrow>
          (let lowerTitle = str_toLowerCase s in
           Inr (if str_includes lowerTitle ''senior'' \<or> str_includes lowerTitle ''sr.''
                   \<or> str_includes lowerTitle ''principal''
                then ''Senior''
                else if str_includes lowerTitle ''lead'' \<or> str_includes lowerTitle ''staff''
                   \<or> str_includes lowerTitle ''chief''
                then ''Lead''
                else if str_includes lowerTitle ''junior'' \<or> str_includes lowerTitle ''jr.''
                   \<or> str_includes lowerTitle ''entry'' \<or> str_includes lowerTitle ''intern''
                then ''Entry-Level''
                else ''Mid-Level''))
      | _ \<Rightarrow> Inl TypeError)"

text \<open>The indicator groups and closed sets, in the words of the specification.\<close>

definition containsAny :: "string \<Rightarrow> string list \<Rightarrow> bool" where
  "containsAny title ks = (\<exists>k \<in> set ks. str_includes (str_toLowerCase title) k)"

definition seniorIndicators :: "string list" where
  "seniorIndicators = [''senior'', ''sr.'', ''principal'']"

definition leadIndicators :: "string list" where
  "leadIndicators = [''lead'', ''staff'', ''chief'']"

definition entryIndicators :: "string list" where
  "entryIndicators = [''junior'', ''jr.'', ''entry'', ''intern'']"

text \<open>Every keyword that \<open>determineCategory\<close> looks for.\<close>

definition categoryKeywords :: "string list" where
  "categoryKeywords = [''dev'', ''engineer'', ''programmer'', ''frontend'', ''backend'',
     ''fullstack'', ''full stack'', ''data'', ''analyst'', ''scientist'', ''ml'',
     ''machine learning'', ''design'', ''ux'', ''ui'', ''graphic'', ''market'', ''seo'',
     ''growth'', ''product'', ''pm'', ''sales'', ''business development'', ''support'',
     ''customer'', ''success'', ''hr'', ''human'', ''recruiter'', ''talent'', ''finance'',
     ''accounting'', ''accountant'', ''devops'', ''sre'', ''infrastructure'', ''qa'', ''test'',
     ''quality'', ''security'', ''cyber'']"

definition categories :: "string list" where
  "categories = [''Software Development'', ''Data Science'', ''Design'', ''Marketing'',
     ''Product Management'', ''Sales'', ''Customer Support'', ''Human Resources'',
     ''Finance'', ''DevOps'', ''Quality Assurance'', ''Security'']"

definition experienceLevels :: "string list" where
  "experienceLevels = [''Entry-Level'', ''Mid-Level'', ''Senior'', ''Lead'']"

text \<open>
  \<open>description.split(/[.!?]+/)\<close>, as a scan with two states.  \<open>splitScan\<close> reads a
  fragment (kept reversed in \<open>cur\<close>): a separator closes it, the end of the string closes
  the last one.  \<open>skipRun\<close> stands inside a run of separators and skips the rest of it; a
  string that ends there has the empty string as its last fragment.
\<close>

definition isSentenceEnd :: "char \<Rightarrow> bool" where
  "isSentenceEnd c = (c = CHR ''.'' \<or> c = CHR ''!'' \<or> c = CHR ''?'')"

fun splitScan :: "string \<Rightarrow> string \<Rightarrow> string list"
  and skipRun :: "string \<Rightarrow> string list"
where
  "splitScan cur [] = [rev cur]"
| "splitScan cur (c # cs) =
     (if isSentenceEnd c then rev cur # skipRun cs else splitScan (c # cur) cs)"
| "skipRun [] = [[]]"
| "skipRun (c # cs) = (if isSentenceEnd c then skipRun cs else splitScan [c] cs)"

definition str_split :: "string \<Rightarrow> string list" where
  "str_split s = splitScan [] s"

definition fallbackRequirements :: "string list" where
  "fallbackRequirements = [''Experience in relevant field'', ''Strong communication skills'',
     ''Ability to work in a team environment'']"

definition extractRequirements :: "jsval \<Rightarrow> js_error + string list" where
  "extractRequirements description =
     (case (if truthy description
            then (case asString description of
                    Inl e \<Rightarrow> Inl e
                  | Inr d \<Rightarrow>
                      (let sentences = filter (\<lambda>s. length (str_trim s) > 10) (str_split d)
                       in Inr (map str_trim (take 3 sentences))))
            else Inr [])
      of Inl e \<Rightarrow> Inl e
       | Inr requirements \<Rightarrow>
           Inr (if length requirements = 0 then fallbackRequirements else requirements))"

section \<open>Transformer\<close>

text \<open>
  What the handlers take from the JavaScript runtime.  \<open>epochToISO v\<close> is
  \<open>new Date(v * 1000).toISOString()\<close>, \<open>None\<close> when the time value is invalid and
  \<open>toISOString\<close> throws a RangeError; \<open>urlParses s\<close> says that \<open>new URL(s)\<close> does not throw;
  \<open>randomBase36\<close> is \<open>Math.random().toString(36)\<close>.  One reading of the clock stands for
  all the reads within one request.
\<close>

record runtime =
  dateNow :: nat
  nowISO :: string
  epochToISO :: "jsval \<Rightarrow> string option"
  randomBase36 :: string
  urlParses :: "string \<Rightarrow> bool"

record salary_range =
  smin :: jsval
  smax :: jsval
  currency :: string

record job =
  job_id :: jsval
  title :: jsval
  company :: jsval
  location :: jsval
  category :: string
  experienceLevel :: string
  jobType :: string
  salary :: "salary_range option"
  description :: jsval
  requirements :: "string list"
  responsibilities :: "string list"
  postedDate :: string
  remote :: bool

definition transformRemoteOKJob :: "runtime \<Rightarrow> jsval \<Rightarrow> js_error + job" where
  "transformRemoteOKJob rt remoteJob =
     (case js_get remoteJob ''id'' of
        Inl e \<Rightarrow> Inl e
      | Inr idv \<Rightarrow>
     (let get = js_field remoteJob in
      case determineCategory (js_or (get ''tags'') (JArr [])) of
        Inl e \<Rightarrow> Inl e
      | Inr cat \<Rightarrow>
     (case determineExperienceLevel (js_or (get ''position'') (JStr [])) of
        Inl e \<Rightarrow> Inl e
      | Inr lvl \<Rightarrow>
     (case extractRequirements (js_or (get ''description'') (JStr [])) of
        Inl e \<Rightarrow> Inl e
      | Inr reqs \<Rightarrow>
     (case (if truthy (get ''date'')
            then (case epochToISO rt (get ''date'') of
                    None \<Rightarrow> Inl RangeError
                  | Some stamp \<Rightarrow> Inr stamp)
            else Inr (nowISO rt))
      of Inl e \<Rightarrow> Inl e
       | Inr posted \<Rightarrow>
      Inr \<lparr> job_id = js_or idv (js_or (get ''slug'') (JStr (''job-'' @ showNat (dateNow rt)))),
            title = js_or (get ''position'') (JStr ''Untitled Position''),
            company = js_or (get ''company'') (JStr ''Company Confidential''),
            location = js_or (get ''location'') (JStr ''Remote''),
            category = cat,
            experienceLevel = lvl,
            jobType = ''Full-time'',
            salary = (if truthy (get ''salary_min'') \<and> truthy (get ''salary_max'')
                      then Some \<lparr> smin = get ''salary_min'', smax = get ''salary_max'',
                                   currency = ''USD'' \<rparr>
                      else None),
            description = js_or (get ''description'') (JStr ''No description available''),
            requirements = reqs,
            responsibilities = [],
            postedDate = posted,
            remote = True \<rparr>)))))"

section \<open>Fetch Gateway\<close>

text \<open>The outcome of \<open>await fetch(...)\<close>: the promise rejects, or a response arrives whose
  body either parses as JSON or makes \<open>response.json()\<close> throw a SyntaxError.\<close>

record http_response =
  ok :: bool
  status :: nat
  statusText :: string
  jsonBody :: "jsval option"

datatype jobs_response = JobsOk "job list" | JobsFailed js_error

text \<open>\<open>a || b\<close> on two results of \<open>searchParams.get\<close>, each a string or \<open>null\<close>.\<close>

definition param_or :: "string option \<Rightarrow> string option \<Rightarrow> string option" where
  "param_or a b = (case a of Some s \<Rightarrow> (if s \<noteq> [] then Some s else b) | None \<Rightarrow> b)"

text \<open>The arrow function \<open>job => job && job.id\<close>, read as a condition.\<close>

definition hasId :: "jsval \<Rightarrow> bool" where
  "hasId j = (truthy j \<and> truthy (js_field j ''id''))"

text \<open>\<open>xs.map(f)\<close> and \<open>xs.filter(p)\<close> with a callback that may throw: the first exception
  ends the loop.\<close>

fun mapE :: "('a \<Rightarrow> js_error + 'b) \<Rightarrow> 'a list \<Rightarrow> js_error + 'b list" where
  "mapE f [] = Inr []"
| "mapE f (x # xs) =
     (case f x of
        Inl e \<Rightarrow> Inl e
      | Inr y \<Rightarrow> (case mapE f xs of Inl e \<Rightarrow> Inl e | Inr ys \<Rightarrow> Inr (y # ys)))"

fun filterE :: "('a \<Rightarrow> js_error + bool) \<Rightarrow> 'a list \<Rightarrow> js_error + 'a list" where
  "filterE p [] = Inr []"
| "filterE p (x # xs) =
     (case p x of
        Inl e \<Rightarrow> Inl e
      | Inr b \<Rightarrow>
          (case filterE p xs of Inl e \<Rightarrow> Inl e | Inr ys \<Rightarrow> Inr (if b then x # ys else ys)))"

text \<open>\<open>v.toLowerCase().includes(searchQuery)\<close>.\<close>

definition lowerIncludes :: "jsval \<Rightarrow> string \<Rightarrow> js_error + bool" where
  "lowerIncludes v searchQuery =
     (case asString v of
        Inl e \<Rightarrow> Inl e
      | Inr s \<Rightarrow> Inr (str_includes (str_toLowerCase s) searchQuery))"

text \<open>The callback of the query filter; \<open>||\<close> evaluates its right operand only when the
  left one is false.\<close>

definition matchesQuery :: "string \<Rightarrow> job \<Rightarrow> js_error + bool" where
  "matchesQuery searchQuery j =
     (case lowerIncludes (title j) searchQuery of
        Inl e \<Rightarrow> Inl e
      | Inr True \<Rightarrow> Inr True
      | Inr False \<Rightarrow>
     (case lowerIncludes (company j) searchQuery of
        Inl e \<Rightarrow> Inl e
      | Inr True \<Rightarrow> Inr True
      | Inr False \<Rightarrow>
     (case lowerIncludes (description j) searchQuery of
        Inl e \<Rightarrow> Inl e
      | Inr True \<Rightarrow> Inr True
      | Inr False \<Rightarrow> lowerIncludes (JStr (category j)) searchQuery)))"

text \<open>\<open>searchParams.get('q') || searchParams.get('query') || ''\<close> and
  \<open>searchParams.get('experience') || searchParams.get('experienceLevel')\<close>.\<close>

definition queryParam :: "(string \<Rightarrow> string option) \<Rightarrow> string" where
  "queryParam searchParams =
     (case param_or (searchParams ''q'') (searchParams ''query'') of
        Some s \<Rightarrow> s
      | None \<Rightarrow> [])"

definition experienceParam :: "(string \<Rightarrow> string option) \<Rightarrow> string option" where
  "experienceParam searchParams =
     param_or (searchParams ''experience'') (searchParams ''experienceLevel'')"

text \<open>The body of the \<open>try\<close> block of \<open>GET\<close>.\<close>

definition listJobs ::
  "runtime \<Rightarrow> (string \<Rightarrow> string option) \<Rightarrow> js_error + http_response \<Rightarrow> js_error + job list"
where
  "listJobs rt searchParams upstream =
     (let query = queryParam searchParams;
          experienceLevelP = experienceParam searchParams;
          categoryP = searchParams ''category'';
          jobTypeP = searchParams ''jobType''
      in
      case upstream of
        Inl e \<Rightarrow> Inl e
      | Inr response \<Rightarrow>
     (if \<not> ok response
      then Inl (Error (''RemoteOK API error: '' @ showNat (status response) @ '' ''
                        @ statusText response))
      else
      case jsonBody response of
        None \<Rightarrow> Inl SyntaxError
      | Some result \<Rightarrow>
     (let jobData = (case result of JArr xs \<Rightarrow> drop 1 xs | _ \<Rightarrow> []) in
      case mapE (transformRemoteOKJob rt) (filter hasId jobData) of
        Inl e \<Rightarrow> Inl e
      | Inr jobs0 \<Rightarrow>
     (case (if query \<noteq> [] \<and> str_trim query \<noteq> []
            then filterE (matchesQuery (str_toLowerCase query)) jobs0
            else Inr jobs0)
      of Inl e \<Rightarrow> Inl e
       | Inr jobs1 \<Rightarrow>
     (let jobs2 = (case experienceLevelP of
                     Some el \<Rightarrow>
                       (if el \<noteq> ''All Levels'' \<and> el \<noteq> []
                        then filter (\<lambda>j. experienceLevel j = el) jobs1 else jobs1)
                   | None \<Rightarrow> jobs1);
          jobs3 = (case categoryP of
                     Some c \<Rightarrow>
                       (if c \<noteq> ''All Categories'' \<and> c \<noteq> []
                        then filter (\<lambda>j. category j = c) jobs2 else jobs2)
                   | None \<Rightarrow> jobs2);
          jobs4 = (case jobTypeP of
                     Some t \<Rightarrow>
                       (if t \<noteq> ''All Types'' \<and> t \<noteq> []
                        then filter (\<lambda>j. jobType j = t) jobs3 else jobs3)
                   | None \<Rightarrow> jobs3)
      in Inr jobs4)))))"

text \<open>\<open>GET /api\<close>: status 200 with the jobs, or the \<open>catch\<close> block's status 500 with
  \<open>data: []\<close>.\<close>

definition GET ::
  "runtime \<Rightarrow> (string \<Rightarrow> string option) \<Rightarrow> js_error + http_response \<Rightarrow> jobs_response"
where
  "GET rt searchParams upstream =
     (case listJobs rt searchParams upstream of
        Inl e \<Rightarrow> JobsFailed e
      | Inr jobs \<Rightarrow> JobsOk jobs)"

fun response_data :: "jobs_response \<Rightarrow> job list" where
  "response_data (JobsOk jobs) = jobs"
| "response_data (JobsFailed e) = []"

fun response_status :: "jobs_response \<Rightarrow> nat" where
  "response_status (JobsOk jobs) = 200"
| "response_status (JobsFailed e) = 500"

section \<open>Validator\<close>

text \<open>\<open>typeof v === 'string'\<close> and \<open>typeof v === 'number'\<close>.\<close>

definition isString :: "jsval \<Rightarrow> bool" where
  "isString v = (case v of JStr s \<Rightarrow> True | _ \<Rightarrow> False)"

definition isNumber :: "jsval \<Rightarrow> bool" where
  "isNumber v = (case v of JNum n \<Rightarrow> True | _ \<Rightarrow> False)"

text \<open>The text of a value that the code has tested to be a string.\<close>

definition textOf :: "jsval \<Rightarrow> string" where
  "textOf v = (case v of JStr s \<Rightarrow> s | _ \<Rightarrow> [])"

text \<open>
  \<open>/^[^\s@]+@[^\s@]+\.[^\s@]+$/\<close>.  No part can hold an \<open>@\<close>, so the text before the
  first \<open>@\<close> is the local part, the rest is the domain, and the domain needs a dot that is
  neither its first nor its last character.
\<close>

definition emailChar :: "char \<Rightarrow> bool" where
  "emailChar c = (\<not> isWhiteSpace c \<and> c \<noteq> CHR ''@'')"

definition matchesEmailRegex :: "string \<Rightarrow> bool" where
  "matchesEmailRegex s =
     (let localPart = takeWhile (\<lambda>c. c \<noteq> CHR ''@'') s;
          rest = dropWhile (\<lambda>c. c \<noteq> CHR ''@'') s
      in localPart \<noteq> [] \<and> list_all emailChar localPart \<and> rest \<noteq> []
         \<and> list_all emailChar (tl rest) \<and> CHR ''.'' \<in> set (butlast (tl (tl rest))))"

text \<open>\<open>emailRegex.test(email)\<close> converts its argument to a string.\<close>

definition isValidEmail :: "jsval \<Rightarrow> bool" where
  "isValidEmail email = matchesEmailRegex (ToString email)"

text \<open>\<open>/^[\d\s\-\+\(\)]+$/\<close>, and \<open>phone.replace(/\D/g, '').length >= 10\<close>, which is
  evaluated only when the first test succeeds and which only a string can answer.\<close>

definition phoneChar :: "char \<Rightarrow> bool" where
  "phoneChar c = (isDigit c \<or> isWhiteSpace c \<or> c = CHR ''-'' \<or> c = CHR ''+''
                   \<or> c = CHR ''('' \<or> c = CHR '')'')"

definition matchesPhoneRegex :: "string \<Rightarrow> bool" where
  "matchesPhoneRegex s = (s \<noteq> [] \<and> list_all phoneChar s)"

definition isValidPhone :: "jsval \<Rightarrow> js_error + bool" where
  "isValidPhone phone =
     (if matchesPhoneRegex (ToString phone)
      then (case asString phone of
              Inl e \<Rightarrow> Inl e
            | Inr p \<Rightarrow> Inr (length (filter isDigit p) \<ge> 10))
      else Inr False)"

record validation =
  valid :: bool
  errors :: "string list"

text \<open>\<open>validateApplication(data)\<close>: every \<open>if\<close> pushes at most one message onto
  \<open>errors\<close>, in this order.\<close>

definition validateApplication :: "runtime \<Rightarrow> jsval \<Rightarrow> js_error + validation" where
  "validateApplication rt data =
     (case js_get data ''jobId'' of
        Inl e \<Rightarrow> Inl e
      | Inr jobIdV \<Rightarrow>
     (let get = js_field data;
          errors1 = (if \<not> truthy jobIdV \<or> \<not> isString jobIdV
                     then [''Job ID is required''] else []);
          errors2 = errors1 @
                    (if \<not> truthy (get ''applicantName'') \<or> \<not> isString (get ''applicantName'')
                        \<or> length (str_trim (textOf (get ''applicantName''))) < 2
                     then [''Applicant name must be at least 2 characters''] else []);
          errors3 = errors2 @
                    (if \<not> truthy (get ''email'') \<or> \<not> isValidEmail (get ''email'')
                     then [''Valid email address is required''] else [])
      in
      case (if \<not> truthy (get ''phone'') then Inr True
            else (case isValidPhone (get ''phone'') of
                    Inl e \<Rightarrow> Inl e
                  | Inr okPhone \<Rightarrow> Inr (\<not> okPhone)))
      of Inl e \<Rightarrow> Inl e
       | Inr phoneBad \<Rightarrow>
     (let errors4 = errors3 @
                    (if phoneBad
                     then [''Valid phone number is required (minimum 10 digits)''] else []);
          errors5 = errors4 @
                    (if \<not> truthy (get ''coverLetter'') \<or> \<not> isString (get ''coverLetter'')
                        \<or> length (str_trim (textOf (get ''coverLetter''))) < 50
                     then [''Cover letter must be at least 50 characters''] else []);
          errors6 = errors5 @
                    (if get ''yearsOfExperience'' \<noteq> JUndefined
                        \<and> (\<not> isNumber (get ''yearsOfExperience'')
                             \<or> (case get ''yearsOfExperience'' of JNum n \<Rightarrow> n < 0 | _ \<Rightarrow> False))
                     then [''Years of experience must be a non-negative number''] else []);
          errors7 = errors6 @
                    (if truthy (get ''linkedIn'') \<and> isString (get ''linkedIn'')
                        \<and> str_trim (textOf (get ''linkedIn'')) \<noteq> []
                     then (if \<not> str_includes (textOf (get ''linkedIn'')) ''linkedin.com''
                           then [''LinkedIn URL must be a valid LinkedIn profile URL''] else [])
                     else []);
          errors8 = errors7 @
                    (if truthy (get ''portfolio'') \<and> isString (get ''portfolio'')
                        \<and> str_trim (textOf (get ''portfolio'')) \<noteq> []
                     then (if \<not> urlParses rt (textOf (get ''portfolio''))
                           then [''Portfolio must be a valid URL''] else [])
                     else [])
      in Inr \<lparr> valid = (length errors8 = 0), errors = errors8 \<rparr>)))"

section \<open>Application endpoint\<close>

record application =
  app_id :: string
  jobId :: jsval
  applicantName :: string
  email :: string
  phone :: string
  coverLetter :: string
  linkedIn :: "string option"
  portfolio :: "string option"
  yearsOfExperience :: jsval
  submittedAt :: string

text \<open>\<open>v?.trim() || undefined\<close>: \<open>undefined\<close> and \<open>null\<close> give \<open>undefined\<close>, a string its
  trimmed text unless that is empty, and any other value has no \<open>trim\<close> to call.\<close>

definition optionalTrim :: "jsval \<Rightarrow> js_error + string option" where
  "optionalTrim v =
     (case v of
        JUndefined \<Rightarrow> Inr None
      | JNull \<Rightarrow> Inr None
      | JStr s \<Rightarrow> Inr (if str_trim s \<noteq> [] then Some (str_trim s) else None)
      | _ \<Rightarrow> Inl TypeError)"

text \<open>The object literal of lines 96 to 107.\<close>

definition createApplication :: "runtime \<Rightarrow> jsval \<Rightarrow> js_error + application" where
  "createApplication rt body =
     (let get = js_field body in
      case asString (get ''applicantName'') of Inl e \<Rightarrow> Inl e | Inr name \<Rightarrow>
     (case asString (get ''email'') of Inl e \<Rightarrow> Inl e | Inr mail \<Rightarrow>
     (case asString (get ''phone'') of Inl e \<Rightarrow> Inl e | Inr tel \<Rightarrow>
     (case asString (get ''coverLetter'') of Inl e \<Rightarrow> Inl e | Inr letter \<Rightarrow>
     (case optionalTrim (get ''linkedIn'') of Inl e \<Rightarrow> Inl e | Inr li \<Rightarrow>
     (case optionalTrim (get ''portfolio'') of Inl e \<Rightarrow> Inl e | Inr pf \<Rightarrow>
      Inr \<lparr> app_id = ''app-'' @ showNat (dateNow rt) @ ''-'' @ take 9 (drop 2 (randomBase36 rt)),
            jobId = get ''jobId'',
            applicantName = str_trim name,
            email = str_toLowerCase (str_trim mail),
            phone = str_trim tel,
            coverLetter = str_trim letter,
            linkedIn = li,
            portfolio = pf,
            yearsOfExperience = js_or (get ''yearsOfExperience'') (JNum 0),
            submittedAt = nowISO rt \<rparr>))))))"

datatype apply_response =
    Created string string jsval
  | ValidationFailed "string list"
  | InvalidJSON
  | ServerError js_error

fun http_status :: "apply_response \<Rightarrow> nat" where
  "http_status (Created applicationId stamp job) = 201"
| "http_status (ValidationFailed es) = 400"
| "http_status InvalidJSON = 400"
| "http_status (ServerError e) = 500"

fun success :: "apply_response \<Rightarrow> bool" where
  "success (Created applicationId stamp job) = True"
| "success (ValidationFailed es) = False"
| "success InvalidJSON = False"
| "success (ServerError e) = False"


text \<open>
  \<open>POST /api/apply\<close> on the store \<open>applications\<close>.  The request body is \<open>None\<close> when it is
  not JSON, and \<open>request.json()\<close> throws a SyntaxError.  The \<open>try\<close> block comes first, the
  \<open>catch\<close> block after it.
\<close>

definition POST_try ::
  "runtime \<Rightarrow> application list \<Rightarrow> jsval option
     \<Rightarrow> js_error + (apply_response \<times> application list)"
where
  "POST_try rt applications request =
     (case request of
        None \<Rightarrow> Inl SyntaxError
      | Some body \<Rightarrow>
     (case validateApplication rt body of
        Inl e \<Rightarrow> Inl e
      | Inr validation \<Rightarrow>
     (if \<not> valid validation
      then Inr (ValidationFailed (errors validation), applications)
      else
      case createApplication rt body of
        Inl e \<Rightarrow> Inl e
      | Inr application \<Rightarrow>
          Inr (Created (app_id application) (submittedAt application) (jobId application),
               applications @ [application]))))"

definition POST ::
  "runtime \<Rightarrow> application list \<Rightarrow> jsval option \<Rightarrow> apply_response \<times> application list"
where
  "POST rt applications request =
     (case POST_try rt applications request of
        Inr result \<Rightarrow> result
      | Inl e \<Rightarrow> (if e = SyntaxError then (InvalidJSON, applications)
                 else (ServerError e, applications)))"

section \<open>Client fetch helper\<close>

text \<open>
  The body of the response of \<open>GET /api\<close>, as \<open>NextResponse.json\<close> serialises it: a job
  without salary has no \<open>salary\<close> property.  The echo of the request parameters is left
  out, and so is the message of a failure; the client reads \<open>data\<close> only.
\<close>

definition jobToJson :: "job \<Rightarrow> jsval" where
  "jobToJson j =
     JObj ([(''id'', job_id j), (''title'', title j), (''company'', company j),
            (''location'', location j), (''category'', JStr (category j)),
            (''experienceLevel'', JStr (experienceLevel j)), (''type'', JStr (jobType j))]
           @ (case salary j of
                None \<Rightarrow> []
              | Some r \<Rightarrow> [(''salary'', JObj [(''min'', smin r), (''max'', smax r),
                                              (''currency'', JStr (currency r))])])
           @ [(''description'', description j),
              (''requirements'', JArr (map JStr (requirements j))),
              (''responsibilities'', JArr (map JStr (responsibilities j))),
              (''postedDate'', JStr (postedDate j)), (''remote'', JBool (remote j))])"

definition respond :: "jobs_response \<Rightarrow> http_response" where
  "respond r =
     (case r of
        JobsOk jobs \<Rightarrow>
          \<lparr> ok = True, status = 200, statusText = ''OK'',
            jsonBody = Some (JObj [(''data'', JArr (map jobToJson jobs)), (''status'', JNum 200),
                         (''message'', JStr ''Jobs fetched successfully from RemoteOK''),
                         (''totalResults'', JNum (int (length jobs))),
                         (''source'', JStr ''RemoteOK'')]) \<rparr>
      | JobsFailed e \<Rightarrow>
          \<lparr> ok = False, status = 500, statusText = ''Internal Server Error'',
            jsonBody = Some (JObj [(''data'', JArr []), (''status'', JNum 500)]) \<rparr>)"

text \<open>The optional third argument of \<open>fetchJobs\<close>, each of its properties optional.\<close>

record api_filters =
  api_experienceLevel :: "string option"
  api_category :: "string option"
  api_jobType :: "string option"
  api_remoteOnly :: "bool option"

text \<open>The query parameters: \<open>q\<close> and \<open>l\<close>, then each filter that is set and is not its
  sentinel.\<close>

definition buildParams :: "string \<Rightarrow> string \<Rightarrow> api_filters option \<Rightarrow> (string \<times> string) list" where
  "buildParams query loc filtersArg =
     [(''q'', query), (''l'', loc)]
     @ (case filtersArg of
          None \<Rightarrow> []
        | Some f \<Rightarrow>
            (case api_experienceLevel f of
               Some v \<Rightarrow> (if v \<noteq> [] \<and> v \<noteq> ''All Levels'' then [(''experienceLevel'', v)] else [])
             | None \<Rightarrow> [])
            @ (case api_category f of
                 Some v \<Rightarrow> (if v \<noteq> [] \<and> v \<noteq> ''All Categories'' then [(''category'', v)] else [])
               | None \<Rightarrow> [])
            @ (case api_jobType f of
                 Some v \<Rightarrow> (if v \<noteq> [] \<and> v \<noteq> ''All Types'' then [(''jobType'', v)] else [])
               | None \<Rightarrow> [])
            @ (case api_remoteOnly f of
                 Some True \<Rightarrow> [(''remote'', ''true'')]
               | _ \<Rightarrow> []))"

text \<open>
  \<open>fetchJobs\<close>.  \<open>mock\<close> is the constant \<open>MOCK_JOBS\<close>, which the constants module
  defines; \<open>network\<close> gives the outcome of \<open>fetch\<close> for the parameters sent.  The \<open>try\<close>
  block comes first; the \<open>catch\<close> block turns every exception into the mock jobs.
\<close>

definition fetchJobs_try ::
  "jsval \<Rightarrow> ((string \<times> string) list \<Rightarrow> js_error + http_response)
     \<Rightarrow> string option \<Rightarrow> string option \<Rightarrow> api_filters option \<Rightarrow> js_error + jsval"
where
  "fetchJobs_try mock network queryArg locationArg filtersArg =
     (let query = (case queryArg of None \<Rightarrow> ''software developer'' | Some q \<Rightarrow> q);
          loc = (case locationArg of None \<Rightarrow> ''remote'' | Some l \<Rightarrow> l)
      in
      case network (buildParams query loc filtersArg) of
        Inl e \<Rightarrow> Inl e
      | Inr response \<Rightarrow>
     (if \<not> ok response
      then Inl (Error (''HTTP error! status: '' @ showNat (status response)))
      else
      case jsonBody response of
        None \<Rightarrow> Inl SyntaxError
      | Some data \<Rightarrow>
     (case js_get data ''data'' of
        Inl e \<Rightarrow> Inl e
      | Inr d \<Rightarrow>
          (if \<not> truthy d \<or> js_field d ''length'' = JNum 0 then Inr mock else Inr d))))"

definition fetchJobs ::
  "jsval \<Rightarrow> ((string \<times> string) list \<Rightarrow> js_error + http_response)
     \<Rightarrow> string option \<Rightarrow> string option \<Rightarrow> api_filters option \<Rightarrow> jsval"
where
  "fetchJobs mock network queryArg locationArg filtersArg =
     (case fetchJobs_try mock network queryArg locationArg filtersArg of
        Inl e \<Rightarrow> mock
      | Inr jobs \<Rightarrow> jobs)"

section \<open>Client State Controller\<close>

record filter_state =
  flt_category :: string
  flt_location :: string
  flt_experienceLevel :: string
  flt_jobType :: string
  flt_searchQuery :: string
  flt_remoteOnly :: bool

text \<open>
  The state of \<open>JobProvider\<close>: its five \<open>useState\<close> cells, the pending timeout of the
  effect (its due time and the filters that the \<open>loadJobs\<close> of that render closes over),
  the time in milliseconds, and the filters of the calls of \<open>fetchJobs\<close> made so far.
\<close>

record provider =
  jobs :: jsval
  filteredJobs :: jsval
  filters :: filter_state
  loading :: bool
  error :: "string option"
  timer :: "(nat \<times> filter_state) option"
  clock :: nat
  fetches :: "filter_state list"

text \<open>What a rejected promise carries: an \<open>Error\<close> with its message, or another value.\<close>

datatype thrown = ThrownError string | ThrownOther

definition handleApiError :: "thrown \<Rightarrow> string" where
  "handleApiError err =
     (case err of ThrownError m \<Rightarrow> m | ThrownOther \<Rightarrow> ''An unknown error occurred'')"

text \<open>The arguments \<open>loadJobs\<close> gives to \<open>fetchJobs\<close>, and the query parameters of the
  request that follows from them.\<close>

definition fetchJobsFor ::
  "jsval \<Rightarrow> ((string \<times> string) list \<Rightarrow> js_error + http_response) \<Rightarrow> filter_state \<Rightarrow> jsval"
where
  "fetchJobsFor mock network fs =
     fetchJobs mock network
       (Some (if flt_searchQuery fs \<noteq> [] then flt_searchQuery fs else ''software developer''))
       (Some (if flt_location fs \<noteq> [] then flt_location fs else ''remote''))
       (Some \<lparr> api_experienceLevel = Some (flt_experienceLevel fs),
               api_category = Some (flt_category fs),
               api_jobType = Some (flt_jobType fs),
               api_remoteOnly = Some (flt_remoteOnly fs) \<rparr>)"

definition paramsFor :: "filter_state \<Rightarrow> (string \<times> string) list" where
  "paramsFor fs =
     buildParams
       (if flt_searchQuery fs \<noteq> [] then flt_searchQuery fs else ''software developer'')
       (if flt_location fs \<noteq> [] then flt_location fs else ''remote'')
       (Some \<lparr> api_experienceLevel = Some (flt_experienceLevel fs),
               api_category = Some (flt_category fs),
               api_jobType = Some (flt_jobType fs),
               api_remoteOnly = Some (flt_remoteOnly fs) \<rparr>)"

text \<open>
  \<open>await fetchJobs(...)\<close>, as \<open>loadJobs\<close> sees it: the value of a fulfilled promise or
  what a rejected one carries.  \<open>fetchJobs\<close> is an \<open>async\<close> function whose whole body is
  a \<open>try\<close> with a \<open>catch\<close> block that returns, so its promise is always fulfilled.
\<close>

definition awaitFetchJobs ::
  "jsval \<Rightarrow> ((string \<times> string) list \<Rightarrow> js_error + http_response) \<Rightarrow> filter_state
     \<Rightarrow> thrown + jsval"
where
  "awaitFetchJobs mock network fs = Inr (fetchJobsFor mock network fs)"

text \<open>
  \<open>loadJobs\<close>, in the two parts that the \<open>await\<close> separates: the \<open>try\<close> block up to the
  call, and then the rest of the \<open>try\<close> block or the \<open>catch\<close> block, followed by
  \<open>finally\<close>.  \<open>fetchFailed\<close> is the constant \<open>ERROR_MESSAGES.FETCH_FAILED\<close> of the
  constants module.
\<close>

definition loadJobs_start :: "filter_state \<Rightarrow> provider \<Rightarrow> provider" where
  "loadJobs_start fs st = st\<lparr> loading := True, error := None, fetches := fetches st @ [fs] \<rparr>"

definition loadJobs_settle :: "string \<Rightarrow> thrown + jsval \<Rightarrow> provider \<Rightarrow> provider" where
  "loadJobs_settle fetchFailed outcome st =
     (case outcome of
        Inr jobData \<Rightarrow> st\<lparr> jobs := jobData, filteredJobs := jobData, loading := False \<rparr>
      | Inl err \<Rightarrow>
          st\<lparr> error := Some (if handleApiError err \<noteq> [] then handleApiError err
                               else fetchFailed),
              loading := False \<rparr>)"

definition loadJobs ::
  "string \<Rightarrow> jsval \<Rightarrow> ((string \<times> string) list \<Rightarrow> js_error + http_response) \<Rightarrow> filter_state
     \<Rightarrow> provider \<Rightarrow> provider"
where
  "loadJobs fetchFailed mock network fs st =
     loadJobs_settle fetchFailed (awaitFetchJobs mock network fs) (loadJobs_start fs st)"

text \<open>\<open>updateFilter(filterName, value)\<close>, for a name and a value of its type.\<close>

datatype filter_update =
    SetCategory string
  | SetLocation string
  | SetExperienceLevel string
  | SetJobType string
  | SetSearchQuery string
  | SetRemoteOnly bool

fun applyUpdate :: "filter_update \<Rightarrow> filter_state \<Rightarrow> filter_state" where
  "applyUpdate (SetCategory v) prev = prev\<lparr> flt_category := v \<rparr>"
| "applyUpdate (SetLocation v) prev = prev\<lparr> flt_location := v \<rparr>"
| "applyUpdate (SetExperienceLevel v) prev = prev\<lparr> flt_experienceLevel := v \<rparr>"
| "applyUpdate (SetJobType v) prev = prev\<lparr> flt_jobType := v \<rparr>"
| "applyUpdate (SetSearchQuery v) prev = prev\<lparr> flt_searchQuery := v \<rparr>"
| "applyUpdate (SetRemoteOnly v) prev = prev\<lparr> flt_remoteOnly := v \<rparr>"

definition updateFilter :: "filter_update \<Rightarrow> provider \<Rightarrow> provider" where
  "updateFilter u st = st\<lparr> filters := applyUpdate u (filters st) \<rparr>"

text \<open>
  The effect with the dependency \<open>[loadJobs]\<close>.  \<open>setFilters\<close> stores a new object, so
  \<open>loadJobs\<close> (a \<open>useCallback\<close> on \<open>[filters]\<close>) is a new function after every
  \<open>updateFilter\<close>, and React runs the clean-up of the previous effect, which clears the
  pending timeout, and then the effect, which sets a timeout of 300 ms on the new
  \<open>loadJobs\<close>.
\<close>

definition debounceEffect :: "provider \<Rightarrow> provider" where
  "debounceEffect st = st\<lparr> timer := Some (clock st + 300, filters st) \<rparr>"

definition filterChanged :: "filter_update \<Rightarrow> provider \<Rightarrow> provider" where
  "filterChanged u st = debounceEffect (updateFilter u st)"

text \<open>Time passes until \<open>t\<close>: a timeout that is due fires, and \<open>loadJobs\<close> starts the fetch
  for the filters it closes over.\<close>

definition advance :: "nat \<Rightarrow> provider \<Rightarrow> provider" where
  "advance t st =
     (let fired = (case timer st of
                     Some (due, fs) \<Rightarrow>
                       (if due \<le> t then loadJobs_start fs (st\<lparr> timer := None \<rparr>) else st)
                   | None \<Rightarrow> st)
      in fired\<lparr> clock := max (clock st) t \<rparr>)"

text \<open>A burst of \<open>updateFilter\<close> calls, each with its time; the calls are close together
  after \<open>t\<close> when each comes less than 300 ms after the one before it.\<close>

fun burst :: "(nat \<times> filter_update) list \<Rightarrow> provider \<Rightarrow> provider" where
  "burst [] st = st"
| "burst ((t, u) # es) st = burst es (filterChanged u (advance t st))"

fun closeTogether :: "nat \<Rightarrow> (nat \<times> filter_update) list \<Rightarrow> bool" where
  "closeTogether t [] = True"
| "closeTogether t ((t', u) # es) = (t \<le> t' \<and> t' < t + 300 \<and> closeTogether t' es)"

section \<open>The pipeline in the words of the specification\<close>



text \<open>A filter parameter constrains the result when it is present, not empty and not its
  sentinel.\<close>

definition filterActive :: "string \<Rightarrow> string option \<Rightarrow> bool" where
  "filterActive sentinel p = (case p of None \<Rightarrow> False | Some v \<Rightarrow> v \<noteq> [] \<and> v \<noteq> sentinel)"





text \<open>The language of the email pattern: \<open>a@b.c\<close> with three non-empty parts free of
  white space and \<open>@\<close>.\<close>

definition emailLanguage :: "string \<Rightarrow> bool" where
  "emailLanguage s =
     (\<exists>a b c. s = a @ ''@'' @ b @ ''.'' @ c \<and> a \<noteq> [] \<and> b \<noteq> [] \<and> c \<noteq> []
        \<and> list_all emailChar (a @ b @ c))"

text \<open>The eight rules of the validator, each saying when its field is acceptable.\<close>

definition ruleJobId :: "jsval \<Rightarrow> bool" where
  "ruleJobId data = (case js_field data ''jobId'' of JStr s \<Rightarrow> s \<noteq> [] | _ \<Rightarrow> False)"

definition ruleApplicantName :: "jsval \<Rightarrow> bool" where
  "ruleApplicantName data =
     (case js_field data ''applicantName'' of JStr s \<Rightarrow> 2 \<le> length (str_trim s) | _ \<Rightarrow> False)"

definition ruleEmail :: "jsval \<Rightarrow> bool" where
  "ruleEmail data =
     (truthy (js_field data ''email'') \<and> emailLanguage (ToString (js_field data ''email'')))"

definition rulePhone :: "jsval \<Rightarrow> bool" where
  "rulePhone data =
     (case js_field data ''phone'' of
        JStr s \<Rightarrow> s \<noteq> [] \<and> list_all phoneChar s \<and> 10 \<le> length (filter isDigit s)
      | _ \<Rightarrow> False)"

definition ruleCoverLetter :: "jsval \<Rightarrow> bool" where
  "ruleCoverLetter data =
     (case js_field data ''coverLetter'' of JStr s \<Rightarrow> 50 \<le> length (str_trim s) | _ \<Rightarrow> False)"

definition ruleYears :: "jsval \<Rightarrow> bool" where
  "ruleYears data =
     (case js_field data ''yearsOfExperience'' of
        JUndefined \<Rightarrow> True
      | JNum n \<Rightarrow> 0 \<le> n
      | _ \<Rightarrow> False)"

definition ruleLinkedIn :: "jsval \<Rightarrow> bool" where
  "ruleLinkedIn data =
     (case js_field data ''linkedIn'' of
        JStr s \<Rightarrow> str_trim s \<noteq> [] \<longrightarrow> str_includes s ''linkedin.com''
      | _ \<Rightarrow> True)"

definition rulePortfolio :: "runtime \<Rightarrow> jsval \<Rightarrow> bool" where
  "rulePortfolio rt data =
     (case js_field data ''portfolio'' of
        JStr s \<Rightarrow> str_trim s \<noteq> [] \<longrightarrow> urlParses rt s
      | _ \<Rightarrow> True)"


text \<open>One message for each violated rule, in the order of the rules.\<close>

definition expectedErrors :: "runtime \<Rightarrow> jsval \<Rightarrow> string list" where
  "expectedErrors rt data =
     (if ruleJobId data then [] else [''Job ID is required''])
     @ (if ruleApplicantName data then []
        else [''Applicant name must be at least 2 characters''])
     @ (if ruleEmail data then [] else [''Valid email address is required''])
     @ (if rulePhone data then []
        else [''Valid phone number is required (minimum 10 digits)''])
     @ (if ruleCoverLetter data then [] else [''Cover letter must be at least 50 characters''])
     @ (if ruleYears data then []
        else [''Years of experience must be a non-negative number''])
     @ (if ruleLinkedIn data then []
        else [''LinkedIn URL must be a valid LinkedIn profile URL''])
     @ (if rulePortfolio rt data then [] else [''Portfolio must be a valid URL''])"

text \<open>
  The inputs on which the phone test gives an answer: \<open>phone\<close> is falsy, or a string, or
  a value whose text is not made of phone characters.  On any other \<open>phone\<close> (the number
  1234567890, say) the pattern accepts the text of the value and \<open>phone.replace\<close> is then
  called on a value that has no such method.
\<close>

definition phoneAnswers :: "jsval \<Rightarrow> bool" where
  "phoneAnswers data =
     (let p = js_field data ''phone'' in
      \<not> truthy p \<or> isString p \<or> \<not> matchesPhoneRegex (ToString p))"

text \<open>
  The accepted bodies from which the record can be built: \<open>email\<close> is a string, and
  \<open>linkedIn\<close> and \<open>portfolio\<close> are each a string, \<open>null\<close> or absent.  On any other accepted
  body \<open>trim\<close> is called on a value that has no such method.
\<close>

definition trimmable :: "jsval \<Rightarrow> bool" where
  "trimmable v = (case v of JUndefined \<Rightarrow> True | JNull \<Rightarrow> True | JStr s \<Rightarrow> True | _ \<Rightarrow> False)"

definition storable :: "jsval \<Rightarrow> bool" where
  "storable body =
     (isString (js_field body ''email'') \<and> trimmable (js_field body ''linkedIn'')
      \<and> trimmable (js_field body ''portfolio''))"






text \<open>
  Splitting on runs of separators, said without a scan: the fragments \<open>f0, ..., fn\<close> and
  the runs \<open>r1, ..., rn\<close> between them weave back into the text \<open>f0 r1 f1 ... rn fn\<close>.
\<close>

fun weave :: "string list \<Rightarrow> string list \<Rightarrow> string" where
  "weave (f # fs) (r # rs) = f @ r @ weave fs rs"
| "weave [f] [] = f"
| "weave _ _ = []"

definition isRun :: "string \<Rightarrow> bool" where
  "isRun r = (r \<noteq> [] \<and> (\<forall>c \<in> set r. isSentenceEnd c))"


section \<open>Example inputs\<close>

text \<open>A runtime whose clock reads 2023-11-14T22:13:20Z, which formats whole seconds
  of the first day of 2020 only, and which takes a text starting with \<open>http\<close> for a URL.\<close>

definition exampleRuntime :: runtime where
  "exampleRuntime =
     \<lparr> dateNow = 1700000000000,
       nowISO = ''2023-11-14T22:13:20.000Z'',
       epochToISO = (\<lambda>v. if v = JNum 1577836800 then Some ''2020-01-01T00:00:00.000Z'' else None),
       randomBase36 = ''0.4fzyo82mvyr'',
       urlParses = (\<lambda>s. prefix ''http'' s) \<rparr>"

definition noParams :: "string \<Rightarrow> string option" where
  "noParams k = None"

definition okResponse :: "jsval \<Rightarrow> js_error + http_response" where
  "okResponse v = Inr \<lparr> ok = True, status = 200, statusText = ''OK'', jsonBody = Some v \<rparr>"

definition exampleRecord :: jsval where
  "exampleRecord = JObj [(''id'', JNum 101), (''position'', JStr ''Senior UX Designer''),
     (''company'', JStr ''Acme''), (''tags'', JArr [JStr ''ux'', JStr ''figma'']),
     (''salary_min'', JNum 90000), (''salary_max'', JNum 120000),
     (''description'', JStr ''Design our product. You will own the whole design system! Remote''),
     (''date'', JNum 1577836800)]"

definition exampleJob :: job where
  "exampleJob = \<lparr> job_id = JNum 101, title = JStr ''Senior UX Designer'', company = JStr ''Acme'',
      location = JStr ''Remote'', category = ''Design'', experienceLevel = ''Senior'',
      jobType = ''Full-time'',
      salary = Some \<lparr> smin = JNum 90000, smax = JNum 120000, currency = ''USD'' \<rparr>,
      description = JStr ''Design our product. You will own the whole design system! Remote'',
      requirements = [''Design our product'', ''You will own the whole design system''],
      responsibilities = [], postedDate = ''2020-01-01T00:00:00.000Z'', remote = True \<rparr>"



text \<open>A record none of whose texts holds a space, and the query \<open>q\<close> of one space.\<close>

definition designerRecord :: jsval where
  "designerRecord = JObj [(''id'', JNum 1), (''position'', JStr ''Designer''),
     (''company'', JStr ''Acme''), (''description'', JStr ''None''),
     (''tags'', JArr [JStr ''ux''])]"


definition designerJob :: job where
  "designerJob = \<lparr> job_id = JNum 1, title = JStr ''Designer'', company = JStr ''Acme'',
      location = JStr ''Remote'', category = ''Design'', experienceLevel = ''Mid-Level'',
      jobType = ''Full-time'', salary = None, description = JStr ''None'',
      requirements = fallbackRequirements, responsibilities = [],
      postedDate = ''2023-11-14T22:13:20.000Z'', remote = True \<rparr>"

text \<open>The first element of the upstream array, and the parameters \<open>experience=Senior\<close>.\<close>

definition legalNotice :: jsval where
  "legalNotice = JObj [(''last_updated'', JNum 1700000000), (''legal'', JStr ''API terms'')]"

definition seniorOnly :: "string \<Rightarrow> string option" where
  "seniorOnly k = (if k = ''experience'' then Some ''Senior'' else None)"



text \<open>An application whose \<open>phone\<close> is a number.\<close>

definition numericPhone :: jsval where
  "numericPhone = JObj [(''jobId'', JStr ''j1''), (''applicantName'', JStr ''Al''),
     (''email'', JStr ''a@b.com''), (''phone'', JNum 1234567890),
     (''coverLetter'', JStr (replicate 50 (CHR ''x'')))]"



text \<open>The scenario's application with an array around its email.\<close>

definition arrayEmail :: jsval where
  "arrayEmail = JObj [(''jobId'', JStr ''j1''), (''applicantName'', JStr ''Al''),
     (''email'', JArr [JStr ''a@b.com'']), (''phone'', JStr ''1234567890''),
     (''coverLetter'', JStr (replicate 50 (CHR ''x''))), (''yearsOfExperience'', JNum 2)]"

text \<open>The scenario's application with the number \<open>1e21\<close> as its phone, and with an array
  of a text and the number \<open>1.5e21\<close> as its email.\<close>

definition exponentPhone :: jsval where
  "exponentPhone = JObj [(''jobId'', JStr ''j1''), (''applicantName'', JStr ''Al''),
     (''email'', JStr ''a@b.com''), (''phone'', JNum 1000000000000000000000),
     (''coverLetter'', JStr (replicate 50 (CHR ''x''))), (''yearsOfExperience'', JNum 2)]"

definition exponentEmail :: jsval where
  "exponentEmail = JObj [(''jobId'', JStr ''j1''), (''applicantName'', JStr ''Al''),
     (''email'', JArr [JStr ''a@b'', JNum 1500000000000000000000]),
     (''phone'', JStr ''1234567890''),
     (''coverLetter'', JStr (replicate 50 (CHR ''x''))), (''yearsOfExperience'', JNum 2)]"

text \<open>Filters with no constraint, a provider that shows one job, and a network that is
  down.\<close>

definition noConstraint :: filter_state where
  "noConstraint = \<lparr> flt_category = ''All Categories'', flt_location = [],
      flt_experienceLevel = ''All Levels'', flt_jobType = ''All Types'',
      flt_searchQuery = [], flt_remoteOnly = False \<rparr>"

definition showingOne :: provider where
  "showingOne = \<lparr> jobs = JArr [jobToJson designerJob], filteredJobs = JArr [jobToJson designerJob],
      filters = noConstraint, loading = False, error = None, timer = None, clock = 1000,
      fetches = [noConstraint] \<rparr>"

definition offline :: "(string \<times> string) list \<Rightarrow> js_error + http_response" where
  "offline params = Inl (Error ''Failed to fetch'')"

text \<open>The server of this repository behind the network, on an upstream of one designer
  job, asked for senior jobs only whatever the parameters sent.\<close>

definition seniorServer :: "(string \<times> string) list \<Rightarrow> js_error + http_response" where
  "seniorServer params =
     Inr (respond (GET exampleRuntime seniorOnly (okResponse (JArr [legalNotice, designerRecord]))))"

text \<open>A server that answers 503, and one that answers 200 with no \<open>data\<close>.\<close>

definition brokenServer :: "(string \<times> string) list \<Rightarrow> js_error + http_response" where
  "brokenServer params =
     Inr \<lparr> ok = False, status = 503, statusText = ''Service Unavailable'', jsonBody = None \<rparr>"

definition dataLess :: "(string \<times> string) list \<Rightarrow> js_error + http_response" where
  "dataLess params =
     Inr \<lparr> ok = True, status = 200, statusText = ''OK'',
           jsonBody = Some (JObj [(''status'', JNum 200)]) \<rparr>"

text \<open>A server that answers 200 with a body that is not JSON, and one that answers with
  the example job.\<close>

definition garbledServer :: "(string \<times> string) list \<Rightarrow> js_error + http_response" where
  "garbledServer params =
     Inr \<lparr> ok = True, status = 200, statusText = ''OK'', jsonBody = None \<rparr>"

definition oneJobServer :: "(string \<times> string) list \<Rightarrow> js_error + http_response" where
  "oneJobServer params = Inr (respond (JobsOk [exampleJob]))"

section \<open>Evaluation of string operations\<close>

lemma str_includes_simps [simp]:
  "str_includes s [] = True"
  "str_includes [] (c # cs) = False"
  "str_includes (d # ds) (c # cs) = (prefix (c # cs) (d # ds) \<or> str_includes ds (c # cs))"
  by (simp_all add: str_includes_def sublist_Cons_right)

lemma str_includes_iff: "str_includes s t \<longleftrightarrow> (\<exists>a b. s = a @ t @ b)"
  by (simp add: str_includes_def sublist_def)

lemma showNat_small: "n < 10 \<Longrightarrow> showNat n = [digitChar n]"
  by (simp add: showNat.simps)

lemma showNat_large: "\<not> n < 10 \<Longrightarrow> showNat n = showNat (n div 10) @ [digitChar (n mod 10)]"
  by (subst showNat.simps) simp

lemma binaryExponent_small: "x < 2 ^ 53 \<Longrightarrow> binaryExponent x = 0"
  by (simp add: binaryExponent.simps)

lemma binaryExponent_large:
  "\<not> x < 2 ^ 53 \<Longrightarrow> binaryExponent x = Suc (binaryExponent (x div 2))"
  by (subst binaryExponent.simps) simp

lemma shortestFrom_zero: "shortestFrom x 0 = x"
  by (simp add: shortestFrom.simps)

lemma shortestFrom_step:
  "j \<noteq> 0 \<Longrightarrow> shortestFrom x j =
     (case roundings x (10 ^ j) of v # vs \<Rightarrow> v | [] \<Rightarrow> shortestFrom x (j - 1))"
  by (subst shortestFrom.simps) simp

lemmas number_eval = numberToString_def natToString_def showNat_small showNat_large
  digitChar_def binaryExponent_small binaryExponent_large shortestFrom_zero shortestFrom_step
  roundings_def readsBackAs_def Let_def

text \<open>Numbers print in plain decimal below \<open>1e21\<close>, with the digits that tell the number
  from its neighbours and zeros after them, and with an exponent from \<open>1e21\<close> on.\<close>

lemma ToString_number_examples:
  "ToString (JNum 1234567890) = ''1234567890''"
  "ToString (JNum (- 42)) = ''-42''"
  "ToString (JNum 18446744073709551616) = ''18446744073709552000''"
  "ToString (JNum 1000000000000000000000) = ''1e+21''"
  "ToString (JNum 1500000000000000000000) = ''1.5e+21''"
  "ToString (JNum 1180591620717411303424) = ''1.1805916207174113e+21''"
  "ToString (JNum (- 99999999999999991611392)) = ''-1e+23''"
  by (simp_all add: number_eval)

lemmas string_eval = str_toLowerCase_def str_trim_def isWhiteSpace_def isSentenceEnd_def
  str_split_def elementToString_def arr_join_def asString_def js_or_def js_field_def

section \<open>Experience level\<close>

text \<open>
  C4.  For every title string: a Senior indicator in the lower-cased title gives
  \<open>Senior\<close>; a Lead indicator without a Senior indicator gives \<open>Lead\<close>; a title with no
  Senior, Lead or Entry indicator gives \<open>Mid-Level\<close>.  Senior is tested before Lead, so
  a title with both is \<open>Senior\<close>.
\<close>

theorem determineExperienceLevel_groups:
  "(containsAny t seniorIndicators \<longrightarrow> determineExperienceLevel (JStr t) = Inr ''Senior'')
   \<and> (containsAny t leadIndicators \<and> \<not> containsAny t seniorIndicators
        \<longrightarrow> determineExperienceLevel (JStr t) = Inr ''Lead'')
   \<and> (\<not> containsAny t seniorIndicators \<and> \<not> containsAny t leadIndicators
        \<and> \<not> containsAny t entryIndicators
        \<longrightarrow> determineExperienceLevel (JStr t) = Inr ''Mid-Level'')
   \<and> (containsAny t seniorIndicators \<and> containsAny t leadIndicators
        \<longrightarrow> determineExperienceLevel (JStr t) = Inr ''Senior'')"
  by (simp add: determineExperienceLevel_def containsAny_def seniorIndicators_def
      leadIndicators_def entryIndicators_def Let_def)

text \<open>
  C4, at three titles: one with a Senior and a Lead indicator, one with a Lead indicator
  only, one with no indicator.
\<close>

theorem determineExperienceLevel_groups_witness:
  "(containsAny ''Senior Team Lead'' seniorIndicators
      \<and> containsAny ''Senior Team Lead'' leadIndicators
      \<and> determineExperienceLevel (JStr ''Senior Team Lead'') = Inr ''Senior'')
   \<and> (containsAny ''Staff Engineer'' leadIndicators
      \<and> \<not> containsAny ''Staff Engineer'' seniorIndicators
      \<and> determineExperienceLevel (JStr ''Staff Engineer'') = Inr ''Lead'')
   \<and> (\<not> containsAny ''Accountant'' seniorIndicators
      \<and> \<not> containsAny ''Accountant'' leadIndicators
      \<and> \<not> containsAny ''Accountant'' entryIndicators
      \<and> determineExperienceLevel (JStr ''Accountant'') = Inr ''Mid-Level'')"
proof -
  have both:
    "containsAny ''Senior Team Lead'' seniorIndicators
      \<and> containsAny ''Senior Team Lead'' leadIndicators"
    by (simp add: containsAny_def seniorIndicators_def leadIndicators_def str_toLowerCase_def)
  have lead:
    "containsAny ''Staff Engineer'' leadIndicators
      \<and> \<not> containsAny ''Staff Engineer'' seniorIndicators"
    by (simp add: containsAny_def seniorIndicators_def leadIndicators_def str_toLowerCase_def)
  have none:
    "\<not> containsAny ''Accountant'' seniorIndicators
      \<and> \<not> containsAny ''Accountant'' leadIndicators
      \<and> \<not> containsAny ''Accountant'' entryIndicators"
    by (simp add: containsAny_def seniorIndicators_def leadIndicators_def
        entryIndicators_def str_toLowerCase_def)
  show ?thesis
    using both lead none
      determineExperienceLevel_groups [of "''Senior Team Lead''"]
      determineExperienceLevel_groups [of "''Staff Engineer''"]
      determineExperienceLevel_groups [of "''Accountant''"]
    by blast
qed

section \<open>Closed sets of the classifier\<close>

lemma categoryOfSearchText_closed: "categoryOfSearchText x \<in> set categories"
  by (simp add: categoryOfSearchText_def categories_def)

lemma determineCategory_closed: "determineCategory v = Inr c \<Longrightarrow> c \<in> set categories"
  by (cases v) (auto simp: determineCategory_def categoryOfSearchText_closed)

lemma determineExperienceLevel_JStr:
  "determineExperienceLevel (JStr s) \<in> Inr ` set experienceLevels"
  by (simp add: determineExperienceLevel_def experienceLevels_def Let_def)

lemma determineExperienceLevel_closed:
  assumes "determineExperienceLevel v = Inr l"
  shows "l \<in> set experienceLevels"
proof (cases v)
  case (JStr s)
  with assms determineExperienceLevel_JStr [of s] show ?thesis by auto
qed (use assms in \<open>simp_all add: determineExperienceLevel_def\<close>)

text \<open>What a successful run of the transformer says about each field of its result.\<close>

lemma transformRemoteOKJob_Inr:
  assumes "transformRemoteOKJob rt r = Inr j"
  shows "determineCategory (js_or (js_field r ''tags'') (JArr [])) = Inr (category j)"
    and "determineExperienceLevel (js_or (js_field r ''position'') (JStr []))
          = Inr (experienceLevel j)"
    and "extractRequirements (js_or (js_field r ''description'') (JStr []))
          = Inr (requirements j)"
    and "salary j = (if truthy (js_field r ''salary_min'') \<and> truthy (js_field r ''salary_max'')
                     then Some \<lparr> smin = js_field r ''salary_min'',
                                  smax = js_field r ''salary_max'', currency = ''USD'' \<rparr>
                     else None)"
    and "title j = js_or (js_field r ''position'') (JStr ''Untitled Position'')"
    and "company j = js_or (js_field r ''company'') (JStr ''Company Confidential'')"
    and "description j = js_or (js_field r ''description'') (JStr ''No description available'')"
    and "jobType j = ''Full-time''"
  using assms
  by (auto simp add: transformRemoteOKJob_def Let_def split: sum.splits)

lemma determineCategory_example:
  "determineCategory (JArr [JStr ''ux'', JStr ''figma'']) = Inr ''Design''"
  by (simp add: determineCategory_def categoryOfSearchText_def string_eval)

lemma extractRequirements_example:
  "extractRequirements
     (JStr ''Design our product. You will own the whole design system! Remote'')
   = Inr [''Design our product'', ''You will own the whole design system'']"
  by (simp add: extractRequirements_def string_eval)

lemma determineExperienceLevel_example:
  "determineExperienceLevel (JStr ''Senior UX Designer'') = Inr ''Senior''"
  by (simp add: determineExperienceLevel_def string_eval)

lemma transformRemoteOKJob_example:
  "transformRemoteOKJob exampleRuntime exampleRecord = Inr exampleJob"
  by (simp add: transformRemoteOKJob_def exampleRecord_def exampleJob_def exampleRuntime_def
      js_or_def js_field_def determineCategory_example extractRequirements_example
      determineExperienceLevel_example)

text \<open>
  C6.  On a string and on a list of strings \<open>determineCategory\<close> returns one of the twelve
  categories, and on a string \<open>determineExperienceLevel\<close> returns one of the four levels;
  on any value at all, what either returns is in its closed set; so the \<open>category\<close> and
  the \<open>experienceLevel\<close> of every job the transformer produces are in their closed sets.
  A text with none of the keywords is \<open>Software Development\<close>, a title with none of the
  indicators is \<open>Mid-Level\<close>.
\<close>

theorem classification_closed:
  "determineCategory (JStr s) \<in> Inr ` set categories
   \<and> determineCategory (JArr (map JStr tags)) \<in> Inr ` set categories
   \<and> determineExperienceLevel (JStr t) \<in> Inr ` set experienceLevels
   \<and> (determineCategory v = Inr c \<longrightarrow> c \<in> set categories)
   \<and> (determineExperienceLevel w = Inr l \<longrightarrow> l \<in> set experienceLevels)
   \<and> (transformRemoteOKJob rt r = Inr j
        \<longrightarrow> category j \<in> set categories \<and> experienceLevel j \<in> set experienceLevels)
   \<and> length categories = 12 \<and> distinct categories
   \<and> set experienceLevels = {''Entry-Level'', ''Mid-Level'', ''Senior'', ''Lead''}
   \<and> (\<not> containsAny s categoryKeywords
        \<longrightarrow> determineCategory (JStr s) = Inr ''Software Development'')
   \<and> (\<not> containsAny t (seniorIndicators @ leadIndicators @ entryIndicators)
        \<longrightarrow> determineExperienceLevel (JStr t) = Inr ''Mid-Level'')"
proof (intro conjI impI)
  show "determineCategory (JStr s) \<in> Inr ` set categories"
    by (simp add: determineCategory_def categoryOfSearchText_closed)
  show "determineCategory (JArr (map JStr tags)) \<in> Inr ` set categories"
    by (simp add: determineCategory_def categoryOfSearchText_closed)
  show "determineExperienceLevel (JStr t) \<in> Inr ` set experienceLevels"
    by (rule determineExperienceLevel_JStr)
  show "c \<in> set categories" if "determineCategory v = Inr c"
    using that by (rule determineCategory_closed)
  show "l \<in> set experienceLevels" if "determineExperienceLevel w = Inr l"
    using that by (rule determineExperienceLevel_closed)
  show "category j \<in> set categories" if "transformRemoteOKJob rt r = Inr j"
    using transformRemoteOKJob_Inr(1) [OF that] by (rule determineCategory_closed)
  show "experienceLevel j \<in> set experienceLevels" if "transformRemoteOKJob rt r = Inr j"
    using transformRemoteOKJob_Inr(2) [OF that] by (rule determineExperienceLevel_closed)
  show "length categories = 12" by (simp add: categories_def)
  show "distinct categories" by (simp add: categories_def)
  show "set experienceLevels = {''Entry-Level'', ''Mid-Level'', ''Senior'', ''Lead''}"
    by (simp add: experienceLevels_def)
  show "determineCategory (JStr s) = Inr ''Software Development''"
    if "\<not> containsAny s categoryKeywords"
    using that
    by (simp add: determineCategory_def categoryOfSearchText_def containsAny_def
        categoryKeywords_def)
  show "determineExperienceLevel (JStr t) = Inr ''Mid-Level''"
    if "\<not> containsAny t (seniorIndicators @ leadIndicators @ entryIndicators)"
    using that
    by (simp add: determineExperienceLevel_def containsAny_def seniorIndicators_def
        leadIndicators_def entryIndicators_def)
qed

text \<open>C6, at the tags \<open>[ux, figma]\<close>, the title \<open>Senior UX Designer\<close> and the example
  record.\<close>

theorem classification_closed_witness:
  "\<not> containsAny ''Llama Herder'' categoryKeywords
   \<and> determineCategory (JStr ''Llama Herder'') = Inr ''Software Development''
   \<and> determineCategory (JArr [JStr ''ux'', JStr ''figma'']) = Inr ''Design''
   \<and> ''Design'' \<in> set categories
   \<and> determineExperienceLevel (JStr ''Senior UX Designer'') = Inr ''Senior''
   \<and> ''Senior'' \<in> set experienceLevels
   \<and> transformRemoteOKJob exampleRuntime exampleRecord = Inr exampleJob
   \<and> category exampleJob \<in> set categories
   \<and> experienceLevel exampleJob \<in> set experienceLevels"
proof -
  have k: "\<not> containsAny ''Llama Herder'' categoryKeywords"
    by (simp add: containsAny_def categoryKeywords_def str_toLowerCase_def)
  show ?thesis
    using classification_closed [where v = "JArr [JStr ''ux'', JStr ''figma'']"
        and c = "''Design''" and w = "JStr ''Senior UX Designer''" and l = "''Senior''"
        and rt = exampleRuntime and r = exampleRecord and j = exampleJob
        and s = "''Llama Herder''"]
      k determineCategory_example determineExperienceLevel_example
      transformRemoteOKJob_example
    by blast
qed

section \<open>Requirements\<close>

lemma scan_concat:
  "concat (splitScan cur s) = rev cur @ filter (\<lambda>c. \<not> isSentenceEnd c) s"
  "concat (skipRun s) = filter (\<lambda>c. \<not> isSentenceEnd c) s"
  by (induction cur s and s rule: splitScan_skipRun.induct) auto

lemma str_split_concat: "concat (str_split d) = filter (\<lambda>c. \<not> isSentenceEnd c) d"
  by (simp add: str_split_def scan_concat)

text \<open>No fragment holds a separator.\<close>

lemma str_split_fragments_clean:
  assumes "f \<in> set (str_split d)" and "c \<in> set f"
  shows "\<not> isSentenceEnd c"
proof -
  from assms have "c \<in> set (concat (str_split d))" by auto
  then show ?thesis by (simp add: str_split_concat)
qed

lemma splitScan_hd:
  "splitScan cur s \<noteq> [] \<and> (cur \<noteq> [] \<longrightarrow> hd (splitScan cur s) \<noteq> [])"
  by (induction s arbitrary: cur) auto

lemma scan_weave:
  "\<exists>rs. length rs + 1 = length (splitScan cur s)
      \<and> (\<forall>r \<in> set rs. isRun r)
      \<and> weave (splitScan cur s) rs = rev cur @ s
      \<and> (\<forall>f \<in> set (butlast (tl (splitScan cur s))). f \<noteq> [])"
  "\<exists>rs. length rs + 1 = length (skipRun s)
      \<and> (\<forall>r \<in> set rs. isRun r)
      \<and> weave (skipRun s) rs = dropWhile isSentenceEnd s
      \<and> (\<forall>f \<in> set (butlast (skipRun s)). f \<noteq> [])"
proof (induction cur s and s rule: splitScan_skipRun.induct)
  case (1 cur)
  show ?case by (intro exI [of _ "[]"]) simp
next
  case (2 cur c cs)
  show ?case
  proof (cases "isSentenceEnd c")
    case True
    with 2(1) obtain rs where
      rs: "length rs + 1 = length (skipRun cs)" "\<forall>r \<in> set rs. isRun r"
        "weave (skipRun cs) rs = dropWhile isSentenceEnd cs"
        "\<forall>f \<in> set (butlast (skipRun cs)). f \<noteq> []"
      by auto
    let ?r = "c # takeWhile isSentenceEnd cs"
    have "isRun ?r" using True by (auto simp: isRun_def dest: set_takeWhileD)
    moreover have w: "weave (rev cur # skipRun cs) (?r # rs) = rev cur @ c # cs"
      using rs(3) by simp
    ultimately show ?thesis using True rs(1,2,4)
      by (intro exI [of _ "?r # rs"]) (simp del: weave.simps add: w)
  next
    case False
    with 2(2) obtain rs where
      rs: "length rs + 1 = length (splitScan (c # cur) cs)" "\<forall>r \<in> set rs. isRun r"
        "weave (splitScan (c # cur) cs) rs = rev (c # cur) @ cs"
        "\<forall>f \<in> set (butlast (tl (splitScan (c # cur) cs))). f \<noteq> []"
      by auto
    with False show ?thesis by (intro exI [of _ rs]) simp
  qed
next
  case 3
  show ?case by (intro exI [of _ "[]"]) simp
next
  case (4 c cs)
  show ?case
  proof (cases "isSentenceEnd c")
    case True
    with 4(1) show ?thesis by simp
  next
    case False
    with 4(2) obtain rs where
      rs: "length rs + 1 = length (splitScan [c] cs)" "\<forall>r \<in> set rs. isRun r"
        "weave (splitScan [c] cs) rs = rev [c] @ cs"
        "\<forall>f \<in> set (butlast (tl (splitScan [c] cs))). f \<noteq> []"
      by auto
    obtain f fs where ffs: "splitScan [c] cs = f # fs" "f \<noteq> []"
      using splitScan_hd [of "[c]" cs] by (cases "splitScan [c] cs") auto
    have "\<forall>f \<in> set (butlast (splitScan [c] cs)). f \<noteq> []"
      using rs(4) ffs by (auto split: if_splits)
    with False rs show ?thesis by (intro exI [of _ rs]) simp
  qed
qed

text \<open>
  \<open>str_split\<close> splits on runs: the text is its fragments woven with non-empty runs of
  separators, and only the first and the last fragment can be empty, so that every run is
  maximal.
\<close>

lemma str_split_runs:
  "\<exists>rs. length rs + 1 = length (str_split d)
      \<and> (\<forall>r \<in> set rs. isRun r)
      \<and> weave (str_split d) rs = d
      \<and> (\<forall>f \<in> set (butlast (tl (str_split d))). f \<noteq> [])"
  using scan_weave(1) [of "[]" d] by (simp add: str_split_def)

text \<open>
  C5.  For every description string, \<open>extractRequirements\<close> splits it on runs of
  \<open>. ! ?\<close>, keeps the fragments whose trimmed length exceeds 10 and returns the first three
  of them, trimmed, in their order; when none is left, as for the empty string, it returns
  the three fallback strings.  The result has between one and three entries.  That the
  split is on runs means that the description is its fragments woven with non-empty runs
  of separators, and that no fragment holds a separator.
\<close>

theorem extractRequirements_fragments:
  "extractRequirements (JStr d) =
     Inr (let kept = take 3 (filter (\<lambda>f. 10 < length (str_trim f)) (str_split d)) in
          if kept = [] then fallbackRequirements else map str_trim kept)
   \<and> extractRequirements (JStr []) = Inr fallbackRequirements
   \<and> fallbackRequirements = [''Experience in relevant field'', ''Strong communication skills'',
        ''Ability to work in a team environment'']
   \<and> (\<exists>rs. extractRequirements (JStr d) = Inr rs \<and> 1 \<le> length rs \<and> length rs \<le> 3)
   \<and> (\<exists>runs. length runs + 1 = length (str_split d) \<and> (\<forall>r \<in> set runs. isRun r)
         \<and> weave (str_split d) runs = d)
   \<and> (\<forall>f \<in> set (str_split d). \<forall>c \<in> set f. \<not> isSentenceEnd c)"
proof (intro conjI)
  show eq: "extractRequirements (JStr d) =
     Inr (let kept = take 3 (filter (\<lambda>f. 10 < length (str_trim f)) (str_split d)) in
          if kept = [] then fallbackRequirements else map str_trim kept)"
  proof (cases "d = []")
    case True
    then show ?thesis
      by (simp add: extractRequirements_def str_split_def str_trim_def)
  next
    case False
    then show ?thesis
      by (auto simp add: extractRequirements_def asString_def Let_def min_def split: if_splits)
  qed
  show "extractRequirements (JStr []) = Inr fallbackRequirements"
    by (simp add: extractRequirements_def)
  show "fallbackRequirements = [''Experience in relevant field'', ''Strong communication skills'',
        ''Ability to work in a team environment'']"
    by (simp add: fallbackRequirements_def)
  show "\<exists>rs. extractRequirements (JStr d) = Inr rs \<and> 1 \<le> length rs \<and> length rs \<le> 3"
    unfolding eq by (auto simp: Let_def fallbackRequirements_def Suc_le_eq)
  show "\<exists>runs. length runs + 1 = length (str_split d) \<and> (\<forall>r \<in> set runs. isRun r)
         \<and> weave (str_split d) runs = d"
    using str_split_runs [of d] by blast
  show "\<forall>f \<in> set (str_split d). \<forall>c \<in> set f. \<not> isSentenceEnd c"
    using str_split_fragments_clean by blast
qed

text \<open>C5, at the description \<open>A. B. Valid sentence here.\<close> of the specification: two
  fragments are too short, the third is kept, the empty fragment after the last full stop
  is dropped.\<close>

theorem extractRequirements_fragments_witness:
  "str_split ''A. B. Valid sentence here.'' = [''A'', '' B'', '' Valid sentence here'', []]
   \<and> extractRequirements (JStr ''A. B. Valid sentence here.'') = Inr [''Valid sentence here'']"
  using extractRequirements_fragments [of "''A. B. Valid sentence here.''"]
  by (simp add: string_eval)

section \<open>Salary\<close>












section \<open>The pipeline of the Fetch Gateway\<close>












text \<open>The three exact-match filters after one another are one filter.\<close>

lemma exact_filters:
  "(let jobs2 = (case el of
                   Some e \<Rightarrow>
                     (if e \<noteq> ''All Levels'' \<and> e \<noteq> []
                      then filter (\<lambda>j. experienceLevel j = e) jobs1 else jobs1)
                 | None \<Rightarrow> jobs1);
        jobs3 = (case cat of
                   Some c \<Rightarrow>
                     (if c \<noteq> ''All Categories'' \<and> c \<noteq> []
                      then filter (\<lambda>j. category j = c) jobs2 else jobs2)
                 | None \<Rightarrow> jobs2);
        jobs4 = (case ty of
                   Some t \<Rightarrow>
                     (if t \<noteq> ''All Types'' \<and> t \<noteq> []
                      then filter (\<lambda>j. jobType j = t) jobs3 else jobs3)
                 | None \<Rightarrow> jobs3)
    in jobs4)
   = filter (\<lambda>j. (filterActive ''All Levels'' el \<longrightarrow> el = Some (experienceLevel j))
                \<and> (filterActive ''All Categories'' cat \<longrightarrow> cat = Some (category j))
                \<and> (filterActive ''All Types'' ty \<longrightarrow> ty = Some (jobType j))) jobs1"
  by (cases el; cases cat; cases ty) (auto simp: filterActive_def Let_def intro: filter_cong)

lemma str_trim_Nil [simp]: "str_trim [] = []"
  by (simp add: str_trim_def)

text \<open>\<open>listJobs\<close> on a successful response whose body is an array.\<close>

lemma listJobs_array:
  assumes "ok response" and "jsonBody response = Some (JArr upstream)"
  shows "listJobs rt sp (Inr response) =
     (case mapE (transformRemoteOKJob rt) (filter hasId (drop 1 upstream)) of
        Inl e \<Rightarrow> Inl e
      | Inr jobs0 \<Rightarrow>
         (case (if str_trim (queryParam sp) \<noteq> []
                then filterE (matchesQuery (str_toLowerCase (queryParam sp))) jobs0
                else Inr jobs0)
          of Inl e \<Rightarrow> Inl e
           | Inr jobs1 \<Rightarrow>
              Inr (filter (\<lambda>j. (filterActive ''All Levels'' (experienceParam sp)
                                   \<longrightarrow> experienceParam sp = Some (experienceLevel j))
                \<and> (filterActive ''All Categories'' (sp ''category'')
                      \<longrightarrow> sp ''category'' = Some (category j))
                \<and> (filterActive ''All Types'' (sp ''jobType'')
                      \<longrightarrow> sp ''jobType'' = Some (jobType j))) jobs1)))"
proof -
  have q: "(queryParam sp \<noteq> [] \<and> str_trim (queryParam sp) \<noteq> []) = (str_trim (queryParam sp) \<noteq> [])"
    by auto
  show ?thesis
    unfolding listJobs_def Let_def q
    using assms
    by (simp add: exact_filters [unfolded Let_def] split: sum.splits)
qed







lemma designer_transform: "transformRemoteOKJob exampleRuntime designerRecord = Inr designerJob"
  by (simp add: transformRemoteOKJob_def designerRecord_def designerJob_def exampleRuntime_def
      determineCategory_def categoryOfSearchText_def determineExperienceLevel_def
      extractRequirements_def string_eval)






text \<open>
  A record that is not well-shaped: its \<open>position\<close> is a number, \<open>toLowerCase\<close> is not a
  function of it, and the \<open>catch\<close> block answers 500 with no job.
\<close>

lemma GET_numeric_position:
  "GET exampleRuntime noParams
     (okResponse (JArr [legalNotice, JObj [(''id'', JNum 2), (''position'', JNum 5)]]))
   = JobsFailed TypeError"
proof -
  have "hasId (JObj [(''id'', JNum 2), (''position'', JNum 5)])"
    by (simp add: hasId_def js_field_def)
  moreover have
    "transformRemoteOKJob exampleRuntime (JObj [(''id'', JNum 2), (''position'', JNum 5)])
       = Inl TypeError"
    by (simp add: transformRemoteOKJob_def js_field_def js_or_def determineCategory_def
        determineExperienceLevel_def Let_def)
  ultimately show ?thesis
    by (simp add: GET_def okResponse_def listJobs_array)
qed


section \<open>Validator rules\<close>

lemma emailChar_dot: "emailChar (CHR ''.'')"
  by (simp add: emailChar_def isWhiteSpace_def)

text \<open>The test of the email pattern decides the language of the pattern.\<close>

lemma matchesEmailRegex_language: "matchesEmailRegex s \<longleftrightarrow> emailLanguage s"
proof
  assume m: "matchesEmailRegex s"
  define a where "a = takeWhile (\<lambda>c. c \<noteq> CHR ''@'') s"
  define rest where "rest = dropWhile (\<lambda>c. c \<noteq> CHR ''@'') s"
  from m have a: "a \<noteq> []" "list_all emailChar a" and rest: "rest \<noteq> []"
    and d: "list_all emailChar (tl rest)" and dot: "CHR ''.'' \<in> set (butlast (tl (tl rest)))"
    by (simp_all add: matchesEmailRegex_def a_def rest_def Let_def)
  from rest have "hd rest = CHR ''@''"
    unfolding rest_def using hd_dropWhile [of "\<lambda>c. c \<noteq> CHR ''@''" s] by auto
  with rest have r: "rest = CHR ''@'' # tl rest" by (cases rest) auto
  have s: "s = a @ rest" by (simp add: a_def rest_def)
  from dot obtain p q where pq: "butlast (tl (tl rest)) = p @ CHR ''.'' # q"
    by (auto simp: in_set_conv_decomp)
  then have ne: "tl (tl rest) \<noteq> []" by auto
  then have tt: "tl (tl rest) = p @ CHR ''.'' # q @ [last (tl (tl rest))]"
    using pq append_butlast_last_id [OF ne] by simp
  from ne have ne1: "tl rest \<noteq> []" by auto
  then have t: "tl rest = (hd (tl rest) # p) @ ''.'' @ (q @ [last (tl (tl rest))])"
    using tt by (cases "tl rest") auto
  have "s = a @ ''@'' @ (hd (tl rest) # p) @ ''.'' @ (q @ [last (tl (tl rest))])"
    using s r t by (metis append_Cons append_Nil)
  moreover have "list_all emailChar (a @ (hd (tl rest) # p) @ (q @ [last (tl (tl rest))]))"
  proof -
    from d t have "list_all emailChar ((hd (tl rest) # p) @ ''.'' @ (q @ [last (tl (tl rest))]))"
      by simp
    with a(2) show ?thesis by simp
  qed
  ultimately show "emailLanguage s"
    unfolding emailLanguage_def using a(1) by blast
next
  assume "emailLanguage s"
  then obtain a b c where
    s: "s = a @ ''@'' @ b @ ''.'' @ c" and ne: "a \<noteq> []" "b \<noteq> []" "c \<noteq> []"
    and ok: "list_all emailChar (a @ b @ c)"
    unfolding emailLanguage_def by blast
  from ok have noat: "\<forall>x \<in> set a. x \<noteq> CHR ''@''"
    by (auto simp: list_all_iff emailChar_def)
  have tw: "takeWhile (\<lambda>c. c \<noteq> CHR ''@'') s = a"
    unfolding s using noat by (simp add: takeWhile_tail)
  have dw: "dropWhile (\<lambda>c. c \<noteq> CHR ''@'') s = ''@'' @ b @ ''.'' @ c"
    unfolding s using noat by (simp add: dropWhile_append)
  from ne(2) obtain b0 bs where b: "b = b0 # bs" by (cases b) auto
  from ne(3) have c: "c = butlast c @ [last c]" by simp
  have "butlast (tl (tl (''@'' @ b @ ''.'' @ c))) = bs @ CHR ''.'' # butlast c"
    unfolding b using ne(3) by (simp add: butlast_append)
  then have "CHR ''.'' \<in> set (butlast (tl (tl (''@'' @ b @ ''.'' @ c))))" by simp
  moreover have "list_all emailChar (tl (''@'' @ b @ ''.'' @ c))"
    using ok emailChar_dot by simp
  ultimately show "matchesEmailRegex s"
    using ne(1) ok by (simp add: matchesEmailRegex_def tw dw Let_def del: append.simps)
qed


text \<open>Each condition of \<open>validateApplication\<close> is the negation of its rule.\<close>

lemma jobId_rule:
  "(\<not> truthy v \<or> \<not> isString v) = (\<not> (case v of JStr s \<Rightarrow> s \<noteq> [] | _ \<Rightarrow> False))"
  by (cases v) (simp_all add: isString_def)

lemma trimmed_rule:
  "(\<not> truthy v \<or> \<not> isString v \<or> length (str_trim (textOf v)) < n)
     = (\<not> (case v of JStr s \<Rightarrow> n \<le> length (str_trim s) | _ \<Rightarrow> False))" if "0 < n"
  using that by (cases v) (auto simp: isString_def textOf_def str_trim_def)

lemma years_rule:
  "(v \<noteq> JUndefined \<and> (\<not> isNumber v \<or> (case v of JNum n \<Rightarrow> n < 0 | _ \<Rightarrow> False)))
     = (\<not> (case v of JUndefined \<Rightarrow> True | JNum n \<Rightarrow> 0 \<le> n | _ \<Rightarrow> False))"
  by (cases v) (auto simp: isNumber_def)

lemma optional_rule:
  "(if truthy v \<and> isString v \<and> str_trim (textOf v) \<noteq> []
    then (if \<not> P (textOf v) then [m] else []) else [])
   = (if (case v of JStr s \<Rightarrow> str_trim s \<noteq> [] \<longrightarrow> P s | _ \<Rightarrow> True) then [] else [m])"
  by (cases v) (auto simp: isString_def textOf_def str_trim_def)

lemma phone_rule:
  assumes "\<not> truthy p \<or> isString p \<or> \<not> matchesPhoneRegex (ToString p)"
  shows "(if \<not> truthy p then Inr True
          else (case isValidPhone p of Inl e \<Rightarrow> Inl e | Inr okPhone \<Rightarrow> Inr (\<not> okPhone)))
         = Inr (\<not> (case p of
                      JStr s \<Rightarrow> s \<noteq> [] \<and> list_all phoneChar s \<and> 10 \<le> length (filter isDigit s)
                    | _ \<Rightarrow> False))"
  using assms
  by (cases p) (auto simp: isValidPhone_def isString_def asString_def matchesPhoneRegex_def)

lemma validateApplication_rules:
  assumes "data \<noteq> JNull" "data \<noteq> JUndefined" "phoneAnswers data"
  shows "validateApplication rt data
           = Inr \<lparr> valid = (expectedErrors rt data = []), errors = expectedErrors rt data \<rparr>"
proof -
  let ?f = "js_field data"
  have g: "js_get data ''jobId'' = Inr (?f ''jobId'')"
    using assms(1,2) by (cases data) (simp_all add: js_field_def)
  have r1: "(\<not> truthy (?f ''jobId'') \<or> \<not> isString (?f ''jobId'')) = (\<not> ruleJobId data)"
    unfolding ruleJobId_def by (rule jobId_rule)
  have r2: "(\<not> truthy (?f ''applicantName'') \<or> \<not> isString (?f ''applicantName'')
              \<or> length (str_trim (textOf (?f ''applicantName''))) < 2)
            = (\<not> ruleApplicantName data)"
    unfolding ruleApplicantName_def by (rule trimmed_rule) simp
  have r3: "(\<not> truthy (?f ''email'') \<or> \<not> isValidEmail (?f ''email'')) = (\<not> ruleEmail data)"
    by (simp add: ruleEmail_def isValidEmail_def matchesEmailRegex_language)
  have r4: "(if \<not> truthy (?f ''phone'') then Inr True
             else (case isValidPhone (?f ''phone'') of
                     Inl e \<Rightarrow> Inl e
                   | Inr okPhone \<Rightarrow> Inr (\<not> okPhone)))
            = Inr (\<not> rulePhone data)"
    unfolding rulePhone_def using assms(3)
    by (intro phone_rule) (simp add: phoneAnswers_def Let_def)
  have r5: "(\<not> truthy (?f ''coverLetter'') \<or> \<not> isString (?f ''coverLetter'')
              \<or> length (str_trim (textOf (?f ''coverLetter''))) < 50)
            = (\<not> ruleCoverLetter data)"
    unfolding ruleCoverLetter_def by (rule trimmed_rule) simp
  have r6: "(?f ''yearsOfExperience'' \<noteq> JUndefined
              \<and> (\<not> isNumber (?f ''yearsOfExperience'')
                   \<or> (case ?f ''yearsOfExperience'' of JNum n \<Rightarrow> n < 0 | _ \<Rightarrow> False)))
            = (\<not> ruleYears data)"
    unfolding ruleYears_def by (rule years_rule)
  have r7: "(if truthy (?f ''linkedIn'') \<and> isString (?f ''linkedIn'')
                \<and> str_trim (textOf (?f ''linkedIn'')) \<noteq> []
             then (if \<not> str_includes (textOf (?f ''linkedIn'')) ''linkedin.com''
                   then [''LinkedIn URL must be a valid LinkedIn profile URL''] else [])
             else [])
            = (if ruleLinkedIn data then []
               else [''LinkedIn URL must be a valid LinkedIn profile URL''])"
    unfolding ruleLinkedIn_def
    by (rule optional_rule [where P = "\<lambda>s. str_includes s ''linkedin.com''"])
  have r8: "(if truthy (?f ''portfolio'') \<and> isString (?f ''portfolio'')
                \<and> str_trim (textOf (?f ''portfolio'')) \<noteq> []
             then (if \<not> urlParses rt (textOf (?f ''portfolio''))
                   then [''Portfolio must be a valid URL''] else [])
             else [])
            = (if rulePortfolio rt data then [] else [''Portfolio must be a valid URL''])"
    unfolding rulePortfolio_def by (rule optional_rule [where P = "urlParses rt"])
  show ?thesis
    unfolding validateApplication_def Let_def g sum.case r1 r2 r3 r4 r5 r6 r7 r8
    by (simp add: expectedErrors_def)
qed



text \<open>On every other input the validator throws.\<close>

lemma validateApplication_throws:
  assumes "\<not> (data \<noteq> JNull \<and> data \<noteq> JUndefined \<and> phoneAnswers data)"
  shows "validateApplication rt data = Inl TypeError"
proof (cases "data = JNull \<or> data = JUndefined")
  case True
  then show ?thesis by (auto simp: validateApplication_def)
next
  case False
  with assms have p: "truthy (js_field data ''phone'')" "\<not> isString (js_field data ''phone'')"
    "matchesPhoneRegex (ToString (js_field data ''phone''))"
    by (simp_all add: phoneAnswers_def Let_def)
  then have "isValidPhone (js_field data ''phone'') = Inl TypeError"
    by (cases "js_field data ''phone''") (simp_all add: isValidPhone_def asString_def isString_def)
  moreover have "js_get data ''jobId'' = Inr (js_field data ''jobId'')"
    using False by (cases data) (simp_all add: js_field_def)
  ultimately show ?thesis
    using p(1) by (simp add: validateApplication_def Let_def)
qed

lemma str_trim_id:
  assumes "s = [] \<or> (\<not> isWhiteSpace (hd s) \<and> \<not> isWhiteSpace (last s))"
  shows "str_trim s = s"
proof (cases "s = []")
  case True
  then show ?thesis by (simp add: str_trim_def)
next
  case False
  with assms have "dropWhile isWhiteSpace s = s"
    by (simp add: dropWhile_eq_self_iff)
  moreover from False assms have "dropWhile isWhiteSpace (rev s) = rev s"
    by (simp add: dropWhile_eq_self_iff hd_rev)
  ultimately show ?thesis by (simp add: str_trim_def)
qed

lemma str_trim_replicate_x: "str_trim (replicate n (CHR ''x'')) = replicate n (CHR ''x'')"
  by (rule str_trim_id) (cases n, simp_all add: isWhiteSpace_def)


lemma email_example: "emailLanguage ''a@b.com''"
  unfolding matchesEmailRegex_language [symmetric]
  by (simp add: matchesEmailRegex_def emailChar_def isWhiteSpace_def)






text \<open>A \<open>phone\<close> that is the number 1234567890 makes the validator throw: the pattern
  accepts the text of the number, and a number has no \<open>replace\<close>.\<close>

lemma numericPhone_throws: "validateApplication rt numericPhone = Inl TypeError"
proof -
  have "\<not> phoneAnswers numericPhone"
    by (simp add: phoneAnswers_def numericPhone_def js_field_def isString_def
        matchesPhoneRegex_def numberToString_def natToString_def showNat_small showNat_large digitChar_def
        phoneChar_def isDigit_def)
  then show ?thesis by (simp add: validateApplication_throws)
qed

text \<open>A \<open>phone\<close> that is the number \<open>1e21\<close> prints with an exponent, which the
  pattern refuses: the validator returns the error of the phone.\<close>

lemma exponent_email: "emailLanguage ''a@b,1.5e+21''"
  unfolding matchesEmailRegex_language [symmetric]
  by (simp add: matchesEmailRegex_def emailChar_def isWhiteSpace_def)

lemma exponentPhone_rejected:
  "validateApplication rt exponentPhone
     = Inr \<lparr> valid = False,
             errors = [''Valid phone number is required (minimum 10 digits)''] \<rparr>"
proof -
  have f: "js_field exponentPhone ''jobId'' = JStr ''j1''"
    "js_field exponentPhone ''applicantName'' = JStr ''Al''"
    "js_field exponentPhone ''email'' = JStr ''a@b.com''"
    "js_field exponentPhone ''phone'' = JNum 1000000000000000000000"
    "js_field exponentPhone ''coverLetter'' = JStr (replicate 50 (CHR ''x''))"
    "js_field exponentPhone ''yearsOfExperience'' = JNum 2"
    "js_field exponentPhone ''linkedIn'' = JUndefined"
    "js_field exponentPhone ''portfolio'' = JUndefined"
    by (simp_all add: exponentPhone_def js_field_def)
  have "expectedErrors rt exponentPhone
          = [''Valid phone number is required (minimum 10 digits)'']"
    by (simp add: expectedErrors_def ruleJobId_def ruleApplicantName_def ruleEmail_def
        rulePhone_def ruleYears_def ruleLinkedIn_def rulePortfolio_def ruleCoverLetter_def
        f email_example str_trim_replicate_x str_trim_def isWhiteSpace_def)
  moreover have "phoneAnswers exponentPhone"
    by (simp add: phoneAnswers_def f ToString_number_examples [unfolded ToString.simps] isString_def matchesPhoneRegex_def
        phoneChar_def isDigit_def isWhiteSpace_def)
  moreover have "exponentPhone \<noteq> JNull" "exponentPhone \<noteq> JUndefined"
    by (simp_all add: exponentPhone_def)
  ultimately show ?thesis
    by (simp add: validateApplication_rules)
qed


section \<open>Application endpoint: responses and store\<close>





lemma POST_rejects:
  assumes "validateApplication rt body = Inr v" and "\<not> valid v"
  shows "POST rt store (Some body) = (ValidationFailed (errors v), store)"
  using assms by (simp add: POST_def POST_try_def)





lemma createApplication_Inr:
  assumes "createApplication rt body = Inr a"
  shows "storable body"
  using assms
  by (auto simp: createApplication_def Let_def storable_def asString_def optionalTrim_def
      isString_def trimmable_def split: sum.splits jsval.splits)

text \<open>The store changes only by one record appended, with status 201.\<close>

lemma POST_store:
  "snd (POST rt store request) = store
   \<or> (\<exists>a. snd (POST rt store request) = store @ [a] \<and> http_status (fst (POST rt store request)) = 201)"
  by (auto simp: POST_def POST_try_def split: sum.splits option.splits if_splits)














text \<open>
  An accepted body that is not storable: the email pattern is tested on the text of the
  value, so the array \<open>["a@b.com"]\<close> passes validation, and \<open>body.email.trim()\<close> then
  throws; the response is 500 and the store is unchanged.
\<close>

lemma arrayEmail_accepted_then_fails:
  "validateApplication exampleRuntime arrayEmail = Inr \<lparr> valid = True, errors = [] \<rparr>
   \<and> POST exampleRuntime store (Some arrayEmail) = (ServerError TypeError, store)"
proof -
  have f: "js_field arrayEmail ''jobId'' = JStr ''j1''"
    "js_field arrayEmail ''applicantName'' = JStr ''Al''"
    "js_field arrayEmail ''email'' = JArr [JStr ''a@b.com'']"
    "js_field arrayEmail ''phone'' = JStr ''1234567890''"
    "js_field arrayEmail ''coverLetter'' = JStr (replicate 50 (CHR ''x''))"
    "js_field arrayEmail ''yearsOfExperience'' = JNum 2"
    "js_field arrayEmail ''linkedIn'' = JUndefined"
    "js_field arrayEmail ''portfolio'' = JUndefined"
    by (simp_all add: arrayEmail_def js_field_def)
  have "expectedErrors exampleRuntime arrayEmail = []"
    by (simp add: expectedErrors_def ruleJobId_def ruleApplicantName_def ruleEmail_def
        rulePhone_def ruleYears_def ruleLinkedIn_def rulePortfolio_def ruleCoverLetter_def
        f email_example str_trim_replicate_x str_trim_def
        isWhiteSpace_def phoneChar_def isDigit_def)
  moreover have "phoneAnswers arrayEmail"
    by (simp add: phoneAnswers_def f isString_def)
  moreover have "arrayEmail \<noteq> JNull" "arrayEmail \<noteq> JUndefined"
    by (simp_all add: arrayEmail_def)
  ultimately have v: "validateApplication exampleRuntime arrayEmail
      = Inr \<lparr> valid = True, errors = [] \<rparr>"
    by (simp add: validateApplication_rules)
  have "createApplication exampleRuntime arrayEmail = Inl TypeError"
    by (simp add: createApplication_def Let_def f asString_def)
  with v show ?thesis
    by (simp add: POST_def POST_try_def)
qed

text \<open>
  The application whose \<open>phone\<close> is the number \<open>1e21\<close> is answered with 400.  An
  \<open>email\<close> that is the array of \<open>a@b\<close> and \<open>1.5e21\<close> has the text \<open>a@b,1.5e+21\<close>, whose dot
  the pattern needs: the application is accepted, and \<open>trim\<close> then throws.
\<close>

lemma exponentPhone_POST:
  "POST rt store (Some exponentPhone)
     = (ValidationFailed [''Valid phone number is required (minimum 10 digits)''], store)"
  using POST_rejects [OF exponentPhone_rejected] by simp

lemma exponentEmail_accepted_then_fails:
  "ToString (js_field exponentEmail ''email'') = ''a@b,1.5e+21''
   \<and> validateApplication exampleRuntime exponentEmail = Inr \<lparr> valid = True, errors = [] \<rparr>
   \<and> POST exampleRuntime store (Some exponentEmail) = (ServerError TypeError, store)"
proof -
  have f: "js_field exponentEmail ''jobId'' = JStr ''j1''"
    "js_field exponentEmail ''applicantName'' = JStr ''Al''"
    "js_field exponentEmail ''email'' = JArr [JStr ''a@b'', JNum 1500000000000000000000]"
    "js_field exponentEmail ''phone'' = JStr ''1234567890''"
    "js_field exponentEmail ''coverLetter'' = JStr (replicate 50 (CHR ''x''))"
    "js_field exponentEmail ''yearsOfExperience'' = JNum 2"
    "js_field exponentEmail ''linkedIn'' = JUndefined"
    "js_field exponentEmail ''portfolio'' = JUndefined"
    by (simp_all add: exponentEmail_def js_field_def)
  note t = ToString_number_examples [unfolded ToString.simps]
  have "expectedErrors exampleRuntime exponentEmail = []"
    by (simp add: expectedErrors_def ruleJobId_def ruleApplicantName_def ruleEmail_def
        rulePhone_def ruleYears_def ruleLinkedIn_def rulePortfolio_def ruleCoverLetter_def
        f t exponent_email str_trim_replicate_x str_trim_def
        isWhiteSpace_def phoneChar_def isDigit_def)
  moreover have "phoneAnswers exponentEmail"
    by (simp add: phoneAnswers_def f isString_def)
  moreover have "exponentEmail \<noteq> JNull" "exponentEmail \<noteq> JUndefined"
    by (simp_all add: exponentEmail_def)
  ultimately have v: "validateApplication exampleRuntime exponentEmail
      = Inr \<lparr> valid = True, errors = [] \<rparr>"
    by (simp add: validateApplication_rules)
  have "createApplication exampleRuntime exponentEmail = Inl TypeError"
    by (simp add: createApplication_def Let_def f asString_def)
  with v show ?thesis
    by (simp add: POST_def POST_try_def f t)
qed


section \<open>Fallback of the client fetch helper\<close>

text \<open>\<open>fetchJobs\<close> without its exceptions.\<close>

lemma fetchJobs_eq:
  "fetchJobs mock network q l f =
     (case network (buildParams (case q of None \<Rightarrow> ''software developer'' | Some x \<Rightarrow> x)
                      (case l of None \<Rightarrow> ''remote'' | Some x \<Rightarrow> x) f) of
        Inl e \<Rightarrow> mock
      | Inr response \<Rightarrow>
          (if \<not> ok response then mock
           else case jsonBody response of
                  None \<Rightarrow> mock
                | Some data \<Rightarrow>
                    (if data = JNull \<or> data = JUndefined then mock
                     else if \<not> truthy (js_field data ''data'')
                             \<or> js_field (js_field data ''data'') ''length'' = JNum 0
                          then mock
                          else js_field data ''data'')))"
proof -
  have g: "(case js_get data ''data'' of
              Inl e \<Rightarrow> Inl e
            | Inr d \<Rightarrow> (if \<not> truthy d \<or> js_field d ''length'' = JNum 0 then Inr mock else Inr d))
           = (if data = JNull \<or> data = JUndefined then Inl TypeError
              else if \<not> truthy (js_field data ''data'')
                      \<or> js_field (js_field data ''data'') ''length'' = JNum 0
                   then Inr mock else Inr (js_field data ''data''))" for data
    by (cases data) (simp_all add: js_field_def)
  show ?thesis
    unfolding fetchJobs_def fetchJobs_try_def Let_def g
    by (simp split: sum.splits option.splits)
qed

lemma fetchJobs_empty_only_mock:
  assumes "fetchJobs mock network q l f = JArr []"
  shows "mock = JArr []"
proof -
  have "js_field (JArr []) ''length'' = JNum 0" by (simp add: js_field_def)
  with assms show ?thesis
    unfolding fetchJobs_eq
    by (auto split: sum.splits option.splits if_splits)
qed

lemma respond_no_jobs:
  "js_field (the (jsonBody (respond (JobsOk [])))) ''data'' = JArr []"
  by (simp add: respond_def js_field_def)

text \<open>
  C10.  \<open>fetchJobs\<close> returns \<open>MOCK_JOBS\<close> when the HTTP call throws, when the status is
  not ok, and when the server answers successfully with a \<open>data\<close> that is missing or an
  empty array; so it returns an empty list only if \<open>MOCK_JOBS\<close> is empty, and when the
  route of this repository finds no job (or fails), the caller gets the mock jobs.
\<close>

theorem fetchJobs_falls_back:
  "(network (buildParams q l f) = Inl e \<longrightarrow> fetchJobs mock network (Some q) (Some l) f = mock)
   \<and> (network (buildParams q l f) = Inr response \<and> \<not> ok response
        \<longrightarrow> fetchJobs mock network (Some q) (Some l) f = mock)
   \<and> (network (buildParams q l f) = Inr response \<and> ok response
        \<and> jsonBody response = Some data
        \<and> (js_field data ''data'' = JUndefined \<or> js_field data ''data'' = JNull
             \<or> js_field data ''data'' = JArr [])
        \<longrightarrow> fetchJobs mock network (Some q) (Some l) f = mock)
   \<and> (fetchJobs mock network qa la f = JArr [] \<longrightarrow> mock = JArr [])
   \<and> (network (buildParams q l f) = Inr (respond (GET rt sp upstream))
        \<and> response_data (GET rt sp upstream) = []
        \<longrightarrow> fetchJobs mock network (Some q) (Some l) f = mock)"
proof (intro conjI impI)
  show "fetchJobs mock network (Some q) (Some l) f = mock" if "network (buildParams q l f) = Inl e"
    using that by (simp add: fetchJobs_eq)
  show "fetchJobs mock network (Some q) (Some l) f = mock"
    if "network (buildParams q l f) = Inr response \<and> \<not> ok response"
    using that by (simp add: fetchJobs_eq)
  show "fetchJobs mock network (Some q) (Some l) f = mock"
    if "network (buildParams q l f) = Inr response \<and> ok response
        \<and> jsonBody response = Some data
        \<and> (js_field data ''data'' = JUndefined \<or> js_field data ''data'' = JNull
             \<or> js_field data ''data'' = JArr [])"
    using that
    by (auto simp: fetchJobs_eq js_field_def)
  show "mock = JArr []" if "fetchJobs mock network qa la f = JArr []"
    using that by (rule fetchJobs_empty_only_mock)
  show "fetchJobs mock network (Some q) (Some l) f = mock"
    if h: "network (buildParams q l f) = Inr (respond (GET rt sp upstream))
        \<and> response_data (GET rt sp upstream) = []"
  proof (cases "GET rt sp upstream")
    case (JobsOk js)
    with h have "js = []" by simp
    with h JobsOk show ?thesis
      by (simp add: fetchJobs_eq respond_def js_field_def)
  next
    case (JobsFailed e)
    with h show ?thesis
      by (simp add: fetchJobs_eq respond_def)
  qed
qed

text \<open>A designer job does not pass the filter \<open>experience=Senior\<close>.\<close>

lemma senior_filter_empty:
  "GET exampleRuntime seniorOnly (okResponse (JArr [legalNotice, designerRecord])) = JobsOk []"
proof -
  have "hasId designerRecord" by (simp add: hasId_def designerRecord_def js_field_def)
  then show ?thesis
    by (simp add: GET_def okResponse_def listJobs_array designer_transform queryParam_def
        experienceParam_def seniorOnly_def param_or_def filterActive_def designerJob_def)
qed

text \<open>C10, at a network that is down, at the server whose filter matches no job, at a
  server that answers 503 and at one that answers without \<open>data\<close>; with empty mock jobs
  the result is empty.\<close>

theorem fetchJobs_falls_back_witness:
  "offline (buildParams ''react'' ''remote'' None) = Inl (Error ''Failed to fetch'')
   \<and> fetchJobs (JArr [jobToJson exampleJob]) offline (Some ''react'') (Some ''remote'') None
       = JArr [jobToJson exampleJob]
   \<and> response_data (GET exampleRuntime seniorOnly (okResponse (JArr [legalNotice, designerRecord])))
       = []
   \<and> fetchJobs (JArr [jobToJson exampleJob]) seniorServer (Some ''react'') (Some ''remote'') None
       = JArr [jobToJson exampleJob]
   \<and> fetchJobs (JArr [jobToJson exampleJob]) brokenServer (Some ''react'') (Some ''remote'') None
       = JArr [jobToJson exampleJob]
   \<and> fetchJobs (JArr [jobToJson exampleJob]) dataLess (Some ''react'') (Some ''remote'') None
       = JArr [jobToJson exampleJob]
   \<and> fetchJobs (JArr []) offline (Some ''react'') (Some ''remote'') None = JArr []"
proof -
  let ?mock = "JArr [jobToJson exampleJob]"
  let ?up = "okResponse (JArr [legalNotice, designerRecord])"
  have o: "offline (buildParams ''react'' ''remote'' None) = Inl (Error ''Failed to fetch'')"
    by (simp add: offline_def)
  have e: "response_data (GET exampleRuntime seniorOnly ?up) = []"
    by (simp add: senior_filter_empty)
  have s: "seniorServer (buildParams ''react'' ''remote'' None)
             = Inr (respond (GET exampleRuntime seniorOnly ?up))"
    by (simp add: seniorServer_def)
  from fetchJobs_falls_back [where network = offline and q = "''react''" and l = "''remote''"
      and f = None and e = "Error ''Failed to fetch''" and mock = ?mock] o
  have 1: "fetchJobs ?mock offline (Some ''react'') (Some ''remote'') None = ?mock"
    by blast
  from fetchJobs_falls_back [where network = seniorServer and q = "''react''"
      and l = "''remote''" and f = None and mock = ?mock and rt = exampleRuntime
      and sp = seniorOnly and upstream = ?up] s e
  have 2: "fetchJobs ?mock seniorServer (Some ''react'') (Some ''remote'') None = ?mock"
    by blast
  from fetchJobs_falls_back [where network = offline and q = "''react''" and l = "''remote''"
      and f = None and e = "Error ''Failed to fetch''" and mock = "JArr []"] o
  have 3: "fetchJobs (JArr []) offline (Some ''react'') (Some ''remote'') None = JArr []"
    by blast
  let ?down = "\<lparr> ok = False, status = 503, statusText = ''Service Unavailable'',
                  jsonBody = None \<rparr>"
  from fetchJobs_falls_back [where network = brokenServer and q = "''react''"
      and l = "''remote''" and f = None and mock = ?mock and response = ?down]
  have 4: "fetchJobs ?mock brokenServer (Some ''react'') (Some ''remote'') None = ?mock"
    by (simp add: brokenServer_def)
  let ?bare = "\<lparr> ok = True, status = 200, statusText = ''OK'',
                  jsonBody = Some (JObj [(''status'', JNum 200)]) \<rparr>"
  from fetchJobs_falls_back [where network = dataLess and q = "''react''"
      and l = "''remote''" and f = None and mock = ?mock and response = ?bare
      and data = "JObj [(''status'', JNum 200)]"]
  have 5: "fetchJobs ?mock dataLess (Some ''react'') (Some ''remote'') None = ?mock"
    by (simp add: dataLess_def js_field_def)
  from o e 1 2 3 4 5 show ?thesis by blast
qed

section \<open>Client State Controller: outcomes of a fetch\<close>

text \<open>What \<open>loadJobs\<close> receives, by the outcome of the request.\<close>

lemma fetchJobsFor_eq:
  "fetchJobsFor mock network fs =
     (case network (paramsFor fs) of
        Inl e \<Rightarrow> mock
      | Inr response \<Rightarrow>
          (if \<not> ok response then mock
           else case jsonBody response of
                  None \<Rightarrow> mock
                | Some data \<Rightarrow>
                    (if data = JNull \<or> data = JUndefined then mock
                     else if \<not> truthy (js_field data ''data'')
                             \<or> js_field (js_field data ''data'') ''length'' = JNum 0
                          then mock
                          else js_field data ''data'')))"
  by (simp add: fetchJobsFor_def paramsFor_def fetchJobs_eq)

lemma fetchJobsFor_empty_only_mock:
  "fetchJobsFor mock network fs = JArr [] \<Longrightarrow> mock = JArr []"
  unfolding fetchJobsFor_def by (rule fetchJobs_empty_only_mock)

lemma loadJobs_eq:
  "loadJobs fetchFailed mock network fs st =
     st\<lparr> loading := False, error := None, fetches := fetches st @ [fs],
         jobs := fetchJobsFor mock network fs, filteredJobs := fetchJobsFor mock network fs \<rparr>"
  by (simp add: loadJobs_def awaitFetchJobs_def loadJobs_settle_def loadJobs_start_def)

text \<open>
  The \<open>catch\<close> block of \<open>loadJobs\<close> sets the message of the exception, or the default
  one, and leaves the job list as it is; but the promise of \<open>fetchJobs\<close> is never
  rejected, so the block is not reached.
\<close>

lemma loadJobs_catch_block:
  "error (loadJobs_settle fetchFailed (Inl err) st)
     = Some (if handleApiError err \<noteq> [] then handleApiError err else fetchFailed)
   \<and> jobs (loadJobs_settle fetchFailed (Inl err) st) = jobs st
   \<and> filteredJobs (loadJobs_settle fetchFailed (Inl err) st) = filteredJobs st
   \<and> \<not> loading (loadJobs_settle fetchFailed (Inl err) st)"
  by (simp add: loadJobs_settle_def)

lemma loadJobs_catch_unreached: "awaitFetchJobs mock network fs \<noteq> Inl err"
  by (simp add: awaitFetchJobs_def)

text \<open>
  C8, amended.  Every fetch that \<open>loadJobs\<close> starts ends with the state ready (not
  loading, no error) and with the job list replaced by what \<open>fetchJobs\<close> returned; the call
  is one fetch for the filters given.  When the request succeeds with a \<open>data\<close> array that
  is not empty, that array is the new job list.  When the request fails (the call is
  rejected, the status is not ok, or the body is not JSON) or brings no job (\<open>data\<close> is
  missing, \<open>null\<close> or an empty array), the new job list is \<open>MOCK_JOBS\<close>: the state does not
  become errored, and the list is empty afterwards only if \<open>MOCK_JOBS\<close> is empty.
\<close>

theorem loadJobs_always_ready:
  "\<not> loading (loadJobs fetchFailed mock network fs st)
   \<and> error (loadJobs fetchFailed mock network fs st) = None
   \<and> jobs (loadJobs fetchFailed mock network fs st) = fetchJobsFor mock network fs
   \<and> filteredJobs (loadJobs fetchFailed mock network fs st) = fetchJobsFor mock network fs
   \<and> fetches (loadJobs fetchFailed mock network fs st) = fetches st @ [fs]
   \<and> (network (paramsFor fs) = Inr response \<and> ok response \<and> jsonBody response = Some data
        \<and> js_field data ''data'' = JArr (j # js)
        \<longrightarrow> jobs (loadJobs fetchFailed mock network fs st) = JArr (j # js))
   \<and> (network (paramsFor fs) = Inl e
        \<longrightarrow> jobs (loadJobs fetchFailed mock network fs st) = mock)
   \<and> (network (paramsFor fs) = Inr response \<and> \<not> ok response
        \<longrightarrow> jobs (loadJobs fetchFailed mock network fs st) = mock)
   \<and> (network (paramsFor fs) = Inr response \<and> ok response \<and> jsonBody response = None
        \<longrightarrow> jobs (loadJobs fetchFailed mock network fs st) = mock)
   \<and> (network (paramsFor fs) = Inr response \<and> ok response \<and> jsonBody response = Some data
        \<and> (js_field data ''data'' = JUndefined \<or> js_field data ''data'' = JNull
             \<or> js_field data ''data'' = JArr [])
        \<longrightarrow> jobs (loadJobs fetchFailed mock network fs st) = mock)
   \<and> (jobs (loadJobs fetchFailed mock network fs st) = JArr [] \<longrightarrow> mock = JArr [])"
proof (intro conjI impI)
  let ?st = "loadJobs fetchFailed mock network fs st"
  show "\<not> loading ?st" "error ?st = None" "jobs ?st = fetchJobsFor mock network fs"
    "filteredJobs ?st = fetchJobsFor mock network fs" "fetches ?st = fetches st @ [fs]"
    by (simp_all add: loadJobs_eq)
  show "jobs ?st = JArr (j # js)"
    if h: "network (paramsFor fs) = Inr response \<and> ok response \<and> jsonBody response = Some data
        \<and> js_field data ''data'' = JArr (j # js)"
  proof -
    from h have "data \<noteq> JNull" "data \<noteq> JUndefined"
      by (auto simp: js_field_def)
    with h show ?thesis
      by (simp add: loadJobs_eq fetchJobsFor_eq js_field_def)
  qed
  show "jobs ?st = mock" if "network (paramsFor fs) = Inl e"
    using that by (simp add: loadJobs_eq fetchJobsFor_eq)
  show "jobs ?st = mock" if "network (paramsFor fs) = Inr response \<and> \<not> ok response"
    using that by (simp add: loadJobs_eq fetchJobsFor_eq)
  show "jobs ?st = mock"
    if "network (paramsFor fs) = Inr response \<and> ok response \<and> jsonBody response = None"
    using that by (simp add: loadJobs_eq fetchJobsFor_eq)
  show "jobs ?st = mock"
    if "network (paramsFor fs) = Inr response \<and> ok response \<and> jsonBody response = Some data
        \<and> (js_field data ''data'' = JUndefined \<or> js_field data ''data'' = JNull
             \<or> js_field data ''data'' = JArr [])"
    using that by (auto simp: loadJobs_eq fetchJobsFor_eq js_field_def)
  show "mock = JArr []" if "jobs ?st = JArr []"
    using that by (simp add: loadJobs_eq fetchJobsFor_empty_only_mock)
qed

text \<open>
  C8, as stated, fails at a provider that shows the designer job when the network is
  down: \<open>fetchJobs\<close> catches the failure and returns the mock jobs, so the state is ready,
  no error message is set, and the list holds the mock job instead of being empty.
\<close>

theorem failed_fetch_shows_mock_counterexample:
  "offline (paramsFor noConstraint) = Inl (Error ''Failed to fetch'')
   \<and> \<not> loading (loadJobs ''Failed to fetch jobs'' (JArr [jobToJson exampleJob]) offline
                  noConstraint showingOne)
   \<and> error (loadJobs ''Failed to fetch jobs'' (JArr [jobToJson exampleJob]) offline
              noConstraint showingOne) = None
   \<and> jobs (loadJobs ''Failed to fetch jobs'' (JArr [jobToJson exampleJob]) offline
             noConstraint showingOne) = JArr [jobToJson exampleJob]
   \<and> jobs (loadJobs ''Failed to fetch jobs'' (JArr [jobToJson exampleJob]) offline
             noConstraint showingOne) \<noteq> JArr []"
  by (simp add: loadJobs_eq fetchJobsFor_eq offline_def)

text \<open>C8, amended, at the provider that shows the designer job: a server that answers
  with the example job, a network that is down, a server that answers 503, one whose
  body is not JSON, and the server of this repository when its filter matches no job; with
  empty mock jobs a failed fetch leaves an empty list.\<close>

theorem loadJobs_always_ready_witness:
  "oneJobServer (paramsFor noConstraint) = Inr (respond (JobsOk [exampleJob]))
   \<and> jobs (loadJobs ''Failed to fetch jobs'' (JArr [jobToJson designerJob]) oneJobServer
             noConstraint showingOne) = JArr [jobToJson exampleJob]
   \<and> error (loadJobs ''Failed to fetch jobs'' (JArr [jobToJson designerJob]) oneJobServer
              noConstraint showingOne) = None
   \<and> offline (paramsFor noConstraint) = Inl (Error ''Failed to fetch'')
   \<and> jobs (loadJobs ''Failed to fetch jobs'' (JArr [jobToJson exampleJob]) offline
             noConstraint showingOne) = JArr [jobToJson exampleJob]
   \<and> jobs (loadJobs ''Failed to fetch jobs'' (JArr [jobToJson exampleJob]) brokenServer
             noConstraint showingOne) = JArr [jobToJson exampleJob]
   \<and> jobs (loadJobs ''Failed to fetch jobs'' (JArr [jobToJson exampleJob]) garbledServer
             noConstraint showingOne) = JArr [jobToJson exampleJob]
   \<and> jobs (loadJobs ''Failed to fetch jobs'' (JArr [jobToJson exampleJob]) seniorServer
             noConstraint showingOne) = JArr [jobToJson exampleJob]
   \<and> jobs (loadJobs ''Failed to fetch jobs'' (JArr []) offline noConstraint showingOne)
       = JArr []"
proof -
  let ?msg = "''Failed to fetch jobs''"
  let ?mock = "JArr [jobToJson exampleJob]"
  let ?body = "JObj [(''data'', JArr (map jobToJson [exampleJob])), (''status'', JNum 200),
                     (''message'', JStr ''Jobs fetched successfully from RemoteOK''),
                     (''totalResults'', JNum (int (length [exampleJob]))),
                     (''source'', JStr ''RemoteOK'')]"
  let ?down = "\<lparr> ok = False, status = 503, statusText = ''Service Unavailable'',
                  jsonBody = None \<rparr>"
  let ?garbled = "\<lparr> ok = True, status = 200, statusText = ''OK'', jsonBody = None \<rparr>"
  have s: "oneJobServer (paramsFor noConstraint) = Inr (respond (JobsOk [exampleJob]))"
    by (simp add: oneJobServer_def)
  have o: "offline (paramsFor noConstraint) = Inl (Error ''Failed to fetch'')"
    by (simp add: offline_def)
  note success = loadJobs_always_ready [where network = oneJobServer and fs = noConstraint
      and fetchFailed = ?msg and mock = "JArr [jobToJson designerJob]" and st = showingOne
      and response = "respond (JobsOk [exampleJob])" and data = ?body
      and j = "jobToJson exampleJob" and js = "[]" and e = TypeError]
  from success [THEN conjunct2, THEN conjunct2, THEN conjunct2, THEN conjunct2,
      THEN conjunct2, THEN conjunct1] s
  have 1: "jobs (loadJobs ?msg (JArr [jobToJson designerJob]) oneJobServer noConstraint
                   showingOne) = JArr [jobToJson exampleJob]"
    by (simp add: respond_def js_field_def)
  from success [THEN conjunct2, THEN conjunct1]
  have 2: "error (loadJobs ?msg (JArr [jobToJson designerJob]) oneJobServer noConstraint
                     showingOne) = None" .
  note down = loadJobs_always_ready [where network = offline and fs = noConstraint
      and fetchFailed = ?msg and mock = ?mock and st = showingOne
      and response = ?down and data = ?body
      and j = "jobToJson exampleJob" and js = "[]" and e = "Error ''Failed to fetch''"]
  from down [THEN conjunct2, THEN conjunct2, THEN conjunct2, THEN conjunct2,
      THEN conjunct2, THEN conjunct2, THEN conjunct1] o
  have 3: "jobs (loadJobs ?msg ?mock offline noConstraint showingOne) = ?mock"
    by simp
  note broken = loadJobs_always_ready [where network = brokenServer and fs = noConstraint
      and fetchFailed = ?msg and mock = ?mock and st = showingOne
      and response = ?down and data = ?body
      and j = "jobToJson exampleJob" and js = "[]" and e = TypeError]
  from broken [THEN conjunct2, THEN conjunct2, THEN conjunct2, THEN conjunct2,
      THEN conjunct2, THEN conjunct2, THEN conjunct2, THEN conjunct1]
  have 4: "jobs (loadJobs ?msg ?mock brokenServer noConstraint showingOne) = ?mock"
    by (simp add: brokenServer_def)
  note garbled = loadJobs_always_ready [where network = garbledServer and fs = noConstraint
      and fetchFailed = ?msg and mock = ?mock and st = showingOne
      and response = ?garbled and data = ?body
      and j = "jobToJson exampleJob" and js = "[]" and e = TypeError]
  from garbled [THEN conjunct2, THEN conjunct2, THEN conjunct2, THEN conjunct2,
      THEN conjunct2, THEN conjunct2, THEN conjunct2, THEN conjunct2, THEN conjunct1]
  have 5: "jobs (loadJobs ?msg ?mock garbledServer noConstraint showingOne) = ?mock"
    by (simp add: garbledServer_def)
  note cleared = loadJobs_always_ready [where network = offline and fs = noConstraint
      and fetchFailed = ?msg and mock = "JArr []" and st = showingOne
      and response = ?down and data = ?body
      and j = "jobToJson exampleJob" and js = "[]" and e = "Error ''Failed to fetch''"]
  from cleared [THEN conjunct2, THEN conjunct2, THEN conjunct2, THEN conjunct2,
      THEN conjunct2, THEN conjunct2, THEN conjunct1] o
  have 6: "jobs (loadJobs ?msg (JArr []) offline noConstraint showingOne) = JArr []"
    by simp
  let ?none = "JObj [(''data'', JArr (map jobToJson [])), (''status'', JNum 200),
                     (''message'', JStr ''Jobs fetched successfully from RemoteOK''),
                     (''totalResults'', JNum (int (length ([] :: job list)))),
                     (''source'', JStr ''RemoteOK'')]"
  note senior = loadJobs_always_ready [where network = seniorServer and fs = noConstraint
      and fetchFailed = ?msg and mock = ?mock and st = showingOne
      and response = "respond (JobsOk [])" and data = ?none
      and j = "jobToJson exampleJob" and js = "[]" and e = TypeError]
  from senior [THEN conjunct2, THEN conjunct2, THEN conjunct2, THEN conjunct2,
      THEN conjunct2, THEN conjunct2, THEN conjunct2, THEN conjunct2, THEN conjunct2,
      THEN conjunct1]
  have 7: "jobs (loadJobs ?msg ?mock seniorServer noConstraint showingOne) = ?mock"
    by (simp add: seniorServer_def senior_filter_empty respond_def js_field_def)
  from s o 1 2 3 4 5 6 7 show ?thesis by blast
qed

section \<open>Debounce\<close>

lemma advance_clock: "clock st \<le> t \<Longrightarrow> clock (advance t st) = t"
  by (simp add: advance_def Let_def max_def)

lemma advance_filters: "filters (advance t st) = filters st"
  by (simp add: advance_def Let_def loadJobs_start_def split: option.splits)

lemma advance_not_due:
  "timer st = Some (due, fs) \<Longrightarrow> t < due \<Longrightarrow>
   fetches (advance t st) = fetches st \<and> timer (advance t st) = Some (due, fs)"
  by (simp add: advance_def Let_def)

lemma advance_due:
  "timer st = Some (due, fs) \<Longrightarrow> due \<le> t \<Longrightarrow>
   fetches (advance t st) = fetches st @ [fs] \<and> timer (advance t st) = None"
  by (simp add: advance_def Let_def loadJobs_start_def)

lemma filterChanged_simps:
  "timer (filterChanged u st) = Some (clock st + 300, applyUpdate u (filters st))"
  "filters (filterChanged u st) = applyUpdate u (filters st)"
  "fetches (filterChanged u st) = fetches st"
  "clock (filterChanged u st) = clock st"
  by (simp_all add: filterChanged_def debounceEffect_def updateFilter_def)

text \<open>While the calls of a burst are close together, no fetch starts and the timeout is
  moved to 300 ms after the last call.\<close>

lemma burst_pending:
  assumes "timer st = Some (t + 300, filters st)" and "clock st = t" and "closeTogether t es"
  shows "fetches (burst es st) = fetches st
     \<and> filters (burst es st) = fold applyUpdate (map snd es) (filters st)
     \<and> timer (burst es st) = Some (last (t # map fst es) + 300, filters (burst es st))
     \<and> clock (burst es st) = last (t # map fst es)"
  using assms
proof (induction es arbitrary: st t)
  case Nil
  then show ?case by simp
next
  case (Cons e es)
  obtain t' u where e: "e = (t', u)" by (cases e)
  from Cons.prems(3) e have c: "t \<le> t'" "t' < t + 300" "closeTogether t' es" by simp_all
  let ?a = "advance t' st"
  let ?s = "filterChanged u ?a"
  from advance_not_due [OF Cons.prems(1) c(2)] have a: "fetches ?a = fetches st" by simp
  have ca: "clock ?a = t'" using c(1) Cons.prems(2) by (simp add: advance_clock)
  have fa: "filters ?a = filters st" by (rule advance_filters)
  have s: "timer ?s = Some (t' + 300, filters ?s)" "clock ?s = t'" "fetches ?s = fetches st"
    "filters ?s = applyUpdate u (filters st)"
    by (simp_all add: filterChanged_simps ca fa a)
  from Cons.IH [OF s(1) s(2) c(3)] s(3,4) e show ?case by simp
qed

text \<open>After any burst of close calls and 300 ms of quiet, exactly one fetch has started
  since the first call, for the filters as they stand after the last one.\<close>

lemma debounce_burst:
  assumes "clock st \<le> t" and "closeTogether t es" and "last (t # map fst es) + 300 \<le> T"
  shows "fetches (advance T (burst es (filterChanged u (advance t st))))
           = fetches (advance t st) @ [fold applyUpdate (u # map snd es) (filters st)]"
proof -
  let ?s = "filterChanged u (advance t st)"
  have c: "clock ?s = t" using assms(1) by (simp add: filterChanged_simps advance_clock)
  have t: "timer ?s = Some (t + 300, filters ?s)"
    using assms(1) by (simp add: filterChanged_simps advance_clock)
  from burst_pending [OF t c assms(2)]
  have b: "fetches (burst es ?s) = fetches ?s"
    "filters (burst es ?s) = fold applyUpdate (map snd es) (filters ?s)"
    "timer (burst es ?s) = Some (last (t # map fst es) + 300, filters (burst es ?s))"
    by simp_all
  from advance_due [OF b(3) assms(3)] b(1,2) show ?thesis
    by (simp add: filterChanged_simps advance_filters)
qed

text \<open>
  C9.  Two \<open>updateFilter\<close> calls at the times \<open>t1 \<le> t2\<close>, the second less than 300 ms
  after the first, and no other call until 300 ms after the second: the first call
  schedules a fetch for \<open>t1 + 300\<close>, no fetch starts before the second call, which
  replaces the pending timeout by one for \<open>t2 + 300\<close> on the filters as they stand after
  both calls, and when that time has come exactly one fetch has started since the first
  call, for those filters, and no timeout is pending.
\<close>

theorem debounce_two_updates:
  assumes "clock st \<le> t1" and "t1 \<le> t2" and "t2 < t1 + 300" and "t2 + 300 \<le> T"
  shows
    "timer (filterChanged u1 (advance t1 st))
       = Some (t1 + 300, applyUpdate u1 (filters st))
     \<and> fetches (advance t2 (filterChanged u1 (advance t1 st))) = fetches (advance t1 st)
     \<and> timer (filterChanged u2 (advance t2 (filterChanged u1 (advance t1 st))))
         = Some (t2 + 300, applyUpdate u2 (applyUpdate u1 (filters st)))
     \<and> filters (filterChanged u2 (advance t2 (filterChanged u1 (advance t1 st))))
         = applyUpdate u2 (applyUpdate u1 (filters st))
     \<and> fetches (advance T (filterChanged u2 (advance t2 (filterChanged u1 (advance t1 st)))))
         = fetches (advance t1 st) @ [applyUpdate u2 (applyUpdate u1 (filters st))]
     \<and> timer (advance T (filterChanged u2 (advance t2 (filterChanged u1 (advance t1 st)))))
         = None"
proof -
  let ?s0 = "advance t1 st"
  let ?s1 = "filterChanged u1 ?s0"
  let ?s1' = "advance t2 ?s1"
  let ?s2 = "filterChanged u2 ?s1'"
  let ?f1 = "applyUpdate u1 (filters st)"
  let ?f2 = "applyUpdate u2 ?f1"
  have c0: "clock ?s0 = t1" using assms(1) by (rule advance_clock)
  have t1: "timer ?s1 = Some (t1 + 300, ?f1)"
    by (simp add: filterChanged_simps c0 advance_filters)
  have c1: "clock ?s1 = t1" by (simp add: filterChanged_simps c0)
  from advance_not_due [OF t1 assms(3)]
  have n: "fetches ?s1' = fetches ?s1" "timer ?s1' = Some (t1 + 300, ?f1)" by simp_all
  have c1': "clock ?s1' = t2" using assms(2) by (simp add: advance_clock c1)
  have f1': "filters ?s1' = ?f1" by (simp add: advance_filters filterChanged_simps)
  have t2: "timer ?s2 = Some (t2 + 300, ?f2)"
    by (simp add: filterChanged_simps c1' f1')
  from advance_due [OF t2 assms(4)]
  have d: "fetches (advance T ?s2) = fetches ?s2 @ [?f2]" "timer (advance T ?s2) = None"
    by simp_all
  have "fetches ?s2 = fetches ?s0" by (simp add: filterChanged_simps n)
  with t1 n t2 d f1' show ?thesis
    by (simp add: filterChanged_simps)
qed

text \<open>C9, at two edits of the search text 100 ms apart.\<close>

theorem debounce_two_updates_witness:
  "clock showingOne \<le> 1000 \<and> (1000::nat) \<le> 1100 \<and> (1100::nat) < 1000 + 300
   \<and> (1100::nat) + 300 \<le> 1400
   \<and> fetches (advance 1400 (filterChanged (SetSearchQuery ''react'')
        (advance 1100 (filterChanged (SetSearchQuery ''re'') (advance 1000 showingOne)))))
      = [noConstraint, noConstraint\<lparr> flt_searchQuery := ''react'' \<rparr>]"
proof -
  have h: "clock showingOne \<le> 1000" "(1000::nat) \<le> 1100" "(1100::nat) < 1000 + 300"
    "(1100::nat) + 300 \<le> 1400"
    by (simp_all add: showingOne_def)
  have a: "fetches (advance 1000 showingOne) = [noConstraint]"
    by (simp add: advance_def showingOne_def)
  have f: "filters showingOne = noConstraint" by (simp add: showingOne_def)
  from debounce_two_updates [OF h, of "SetSearchQuery ''re''" "SetSearchQuery ''react''"]
  have "fetches (advance 1400 (filterChanged (SetSearchQuery ''react'')
        (advance 1100 (filterChanged (SetSearchQuery ''re'') (advance 1000 showingOne)))))
      = [noConstraint, noConstraint\<lparr> flt_searchQuery := ''react'' \<rparr>]"
    by (simp add: a f)
  with h show ?thesis by simp
qed

end
